theory Spec2Isabelle
  imports Complex_Main "HOL-Library.Word"
begin

section \<open>Frame conversion: float32 samples to 16-bit PCM\<close>

text \<open>
  \<^verbatim>\<open>useDeepgramLive.ts\<close>, the \<^verbatim>\<open>onaudioprocess\<close> handler:
  \<^verbatim>\<open>
    const int16Array = new Int16Array(inputData.length);
    for (let i = 0; i < inputData.length; i++) {
      int16Array[i] = Math.max(-32768, Math.min(32767, inputData[i] * 32768));
    }
  \<close>
  A JavaScript number is a finite value, one of the two infinities, or NaN. The elements
  of \<^verbatim>\<open>inputData\<close> are float32 values: every finite one is a dyadic rational, and its
  product with \<open>32768 = 2^15\<close> is computed in binary64 without rounding. \<^verbatim>\<open>Math.min\<close>
  and \<^verbatim>\<open>Math.max\<close> return one of their arguments. So a finite sample is modelled
  exactly by a rational number; negative zero behaves as zero in every operation used here.
\<close>

datatype jsnum = Fin rat | PosInf | NegInf | NaN

text \<open>\<^verbatim>\<open>x * 32768\<close>, for a sample \<open>x\<close>.\<close>

fun times_32768 :: "jsnum \<Rightarrow> jsnum" where
  "times_32768 (Fin x) = Fin (x * 32768)"
| "times_32768 PosInf = PosInf"
| "times_32768 NegInf = NegInf"
| "times_32768 NaN = NaN"

text \<open>\<^verbatim>\<open>Math.min(a, b)\<close> and \<^verbatim>\<open>Math.max(a, b)\<close>: NaN if either argument is NaN.\<close>

fun Math_min :: "jsnum \<Rightarrow> jsnum \<Rightarrow> jsnum" where
  "Math_min NaN b = NaN"
| "Math_min a NaN = NaN"
| "Math_min NegInf b = NegInf"
| "Math_min a NegInf = NegInf"
| "Math_min PosInf b = b"
| "Math_min a PosInf = a"
| "Math_min (Fin a) (Fin b) = Fin (min a b)"

fun Math_max :: "jsnum \<Rightarrow> jsnum \<Rightarrow> jsnum" where
  "Math_max NaN b = NaN"
| "Math_max a NaN = NaN"
| "Math_max PosInf b = PosInf"
| "Math_max a PosInf = PosInf"
| "Math_max NegInf b = b"
| "Math_max a NegInf = a"
| "Math_max (Fin a) (Fin b) = Fin (max a b)"

text \<open>Rounding towards zero, the integer part that ECMAScript's \<^verbatim>\<open>ToInt16\<close> takes.\<close>

definition js_trunc :: "rat \<Rightarrow> int" where
  "js_trunc q = (if 0 \<le> q then \<lfloor>q\<rfloor> else \<lceil>q\<rceil>)"

text \<open>
  Storing a number into an \<^verbatim>\<open>Int16Array\<close> element applies \<^verbatim>\<open>ToInt16\<close>: NaN and the
  infinities become 0, a finite number is truncated towards zero and reduced modulo
  \<open>2^16\<close> (the wrap-around of \<^typ>\<open>16 word\<close>); \<^const>\<open>sint\<close> reads the element back.
\<close>

fun ToInt16 :: "jsnum \<Rightarrow> 16 word" where
  "ToInt16 (Fin q) = word_of_int (js_trunc q)"
| "ToInt16 PosInf = 0"
| "ToInt16 NegInf = 0"
| "ToInt16 NaN = 0"

text \<open>The right-hand side of the assignment in the loop body, then the store.\<close>

definition convert_sample :: "jsnum \<Rightarrow> 16 word" where
  "convert_sample x =
     ToInt16 (Math_max (Fin (- 32768)) (Math_min (Fin 32767) (times_32768 x)))"

text \<open>
  The \<^verbatim>\<open>for\<close> loop, with the index and the array being filled as arguments.
  \<^verbatim>\<open>new Int16Array(n)\<close> is \<open>n\<close> zeros.
\<close>

function convert_loop :: "jsnum list \<Rightarrow> nat \<Rightarrow> 16 word list \<Rightarrow> 16 word list" where
  "convert_loop inputData i int16Array =
     (if i < length inputData
      then convert_loop inputData (Suc i) (int16Array[i := convert_sample (inputData ! i)])
      else int16Array)"
  by pat_completeness auto
termination
  by (relation "measure (\<lambda>(inputData, i, int16Array). length inputData - i)") auto

declare convert_loop.simps [simp del]

definition float32_to_int16 :: "jsnum list \<Rightarrow> 16 word list" where
  "float32_to_int16 inputData =
     convert_loop inputData 0 (replicate (length inputData) 0)"

text \<open>The spec's clamp, on exact numbers.\<close>

definition clamp :: "rat \<Rightarrow> rat \<Rightarrow> rat \<Rightarrow> rat" where
  "clamp v lo hi = max lo (min hi v)"

section \<open>The recorder hook\<close>

text \<open>
  \<^verbatim>\<open>src/hooks/useAudioRecorder.ts\<close>. The hook's React state (\<^verbatim>\<open>useState\<close>) and its refs
  (\<^verbatim>\<open>useRef\<close>) are the fields of a record; the browser resources the hook acquires and
  releases (device streams with live tracks, interval timers, object URLs) are fields of
  the same record, so that a leak is visible in the state.
\<close>

datatype RecordingState = Inactive | Recording | Paused | Stopped

type_synonym byte = "8 word"

record Blob =
  blob_bytes :: "byte list"
  blob_type :: string

definition blob_size :: "Blob \<Rightarrow> nat" where
  "blob_size b = length (blob_bytes b)"

text \<open>\<^verbatim>\<open>new Blob(parts, { type })\<close>: the parts' bytes, in order.\<close>

definition new_Blob :: "Blob list \<Rightarrow> string \<Rightarrow> Blob" where
  "new_Blob parts ty = \<lparr>blob_bytes = concat (map blob_bytes parts), blob_type = ty\<rparr>"

text \<open>
  A thrown value: an \<^verbatim>\<open>Error\<close> object with its \<^verbatim>\<open>name\<close> and \<^verbatim>\<open>message\<close>, or a value
  that is not an instance of \<^verbatim>\<open>Error\<close>.
\<close>

datatype thrown = Error_obj string string | Non_error

text \<open>How the promise of \<^verbatim>\<open>getUserMedia\<close> settles: with a stream (a handle), or rejected.\<close>

datatype acquisition = Acquired nat | Rejected thrown

text \<open>
  What the browser offers: whether \<^verbatim>\<open>navigator.mediaDevices.getUserMedia\<close> and
  \<^verbatim>\<open>window.MediaRecorder\<close> exist, the types \<^verbatim>\<open>MediaRecorder.isTypeSupported\<close> accepts, and
  whether the \<^verbatim>\<open>MediaRecorder\<close> constructor or its \<^verbatim>\<open>start\<close> method throws.
\<close>

record platform =
  has_getUserMedia :: bool
  has_MediaRecorder :: bool
  supported_types :: "string list"
  constructor_throws :: "thrown option"
  start_throws :: "thrown option"

definition isTypeSupported :: "platform \<Rightarrow> string \<Rightarrow> bool" where
  "isTypeSupported pf ty = (ty \<in> set (supported_types pf))"

text \<open>
  The \<^verbatim>\<open>MediaRecorder\<close> object: the \<^verbatim>\<open>mimeType\<close> variable its listeners close over, and
  whether its \<^verbatim>\<open>state\<close> is \<^verbatim>\<open>recording\<close>.
\<close>

record MediaRecorder =
  mr_mimeType :: string
  mr_recording :: bool

text \<open>
  Timer ids and object URLs are handles drawn from a counter; \<^verbatim>\<open>setInterval\<close> returns a
  positive id and an object URL is a non-empty string, so the source's truthiness tests
  \<^verbatim>\<open>if (durationIntervalRef.current)\<close> and \<^verbatim>\<open>if (audioURL)\<close> are tests against \<^verbatim>\<open>null\<close>.
  \<open>object_urls\<close> maps each URL that has not been revoked to its blob.
\<close>

record recorder_state =
  recordingState :: RecordingState
  audioURL :: "nat option"
  error :: "string option"
  duration :: int
  mediaRecorderRef :: "MediaRecorder option"
  audioChunksRef :: "Blob list"
  streamRef :: "nat option"
  startTimeRef :: int
  durationIntervalRef :: "nat option"
  live_streams :: "nat set"
  active_timers :: "nat set"
  object_urls :: "nat \<rightharpoonup> Blob"
  next_handle :: nat

definition recorder_init :: recorder_state where
  "recorder_init =
     \<lparr>recordingState = Inactive, audioURL = None, error = None, duration = 0,
      mediaRecorderRef = None, audioChunksRef = [], streamRef = None, startTimeRef = 0,
      durationIntervalRef = None, live_streams = {}, active_timers = {},
      object_urls = Map.empty, next_handle = 1\<rparr>"

text \<open>
  \<^verbatim>\<open>if (streamRef.current) { streamRef.current.getTracks().forEach(track => track.stop());
  streamRef.current = null; }\<close>
\<close>

definition stop_tracks :: "recorder_state \<Rightarrow> recorder_state" where
  "stop_tracks s =
     (case streamRef s of
        None \<Rightarrow> s
      | Some stream \<Rightarrow> s\<lparr>live_streams := live_streams s - {stream}, streamRef := None\<rparr>)"

text \<open>
  \<^verbatim>\<open>if (durationIntervalRef.current) { clearInterval(durationIntervalRef.current);
  durationIntervalRef.current = null; }\<close>
\<close>

definition clear_duration_timer :: "recorder_state \<Rightarrow> recorder_state" where
  "clear_duration_timer s =
     (case durationIntervalRef s of
        None \<Rightarrow> s
      | Some t \<Rightarrow> s\<lparr>active_timers := active_timers s - {t}, durationIntervalRef := None\<rparr>)"

text \<open>\<^verbatim>\<open>URL.revokeObjectURL(url)\<close>; revoking an unknown URL does nothing.\<close>

definition revokeObjectURL :: "nat \<Rightarrow> recorder_state \<Rightarrow> recorder_state" where
  "revokeObjectURL url s = s\<lparr>object_urls := (object_urls s)(url := None)\<rparr>"

text \<open>
  \<^verbatim>\<open>MediaRecorder.stop()\<close> on the recorder in \<^verbatim>\<open>mediaRecorderRef\<close>: an inactive recorder
  ignores it (MediaStream Recording, \<^verbatim>\<open>stop()\<close>, step 2); a recording one becomes inactive
  and the browser later fires \<^verbatim>\<open>dataavailable\<close> and \<^verbatim>\<open>stop\<close>, which arrive as events.
\<close>

definition MediaRecorder_stop :: "recorder_state \<Rightarrow> recorder_state" where
  "MediaRecorder_stop s =
     s\<lparr>mediaRecorderRef := map_option (\<lambda>r. r\<lparr>mr_recording := False\<rparr>) (mediaRecorderRef s)\<rparr>"

subsection \<open>Starting a recording\<close>

text \<open>The message the \<^verbatim>\<open>catch\<close> block of \<^verbatim>\<open>startRecording\<close> builds.\<close>

definition errorMessage :: "thrown \<Rightarrow> string" where
  "errorMessage err =
     ''Could not access microphone. '' @
     (case err of
        Error_obj name message \<Rightarrow>
          if name = ''NotAllowedError'' then ''Please allow microphone access and try again.''
          else if name = ''NotFoundError''
            then ''No microphone found. Please connect a microphone and try again.''
          else if name = ''NotSupportedError''
            then ''Your browser does not support audio recording.''
          else message
      | Non_error \<Rightarrow> ''Please check your microphone permissions and try again.'')"

text \<open>The \<^verbatim>\<open>catch\<close> block of \<^verbatim>\<open>startRecording\<close>.\<close>

definition startRecording_catch :: "thrown \<Rightarrow> recorder_state \<Rightarrow> recorder_state" where
  "startRecording_catch err s =
     stop_tracks (s\<lparr>error := Some (errorMessage err), recordingState := Inactive\<rparr>)"

text \<open>The preference list of encodings; the empty string lets the browser choose.\<close>

definition negotiate_mimeType :: "platform \<Rightarrow> string" where
  "negotiate_mimeType pf =
     (if isTypeSupported pf ''audio/webm;codecs=opus'' then ''audio/webm;codecs=opus''
      else if isTypeSupported pf ''audio/webm'' then ''audio/webm''
      else if isTypeSupported pf ''audio/mp4'' then ''audio/mp4''
      else [])"

text \<open>
  An \<^verbatim>\<open>async\<close> function runs up to its \<^verbatim>\<open>await\<close> and is resumed when the promise settles;
  other calls and events run in between. \<open>Awaiting\<close> is the state left at the \<^verbatim>\<open>await\<close>,
  \<open>Settled\<close> the state when the function finished without reaching it.
\<close>

datatype 'a async = Awaiting 'a | Settled 'a

fun state_of :: "'a async \<Rightarrow> 'a" where
  "state_of (Awaiting s) = s"
| "state_of (Settled s) = s"

text \<open>
  \<^verbatim>\<open>startRecording\<close> up to \<^verbatim>\<open>await navigator.mediaDevices.getUserMedia(...)\<close>. The callback
  is built by \<^verbatim>\<open>useCallback(..., [audioURL])\<close>: it reads the \<^verbatim>\<open>audioURL\<close> of the render that
  built it, the argument \<open>cap_audioURL\<close>.
\<close>

definition startRecording_begin ::
  "nat option \<Rightarrow> platform \<Rightarrow> recorder_state \<Rightarrow> recorder_state async" where
  "startRecording_begin cap_audioURL pf s =
     (let s1 = (case cap_audioURL of
                  Some url \<Rightarrow> (revokeObjectURL url s)\<lparr>audioURL := None\<rparr>
                | None \<Rightarrow> s);
          s2 = s1\<lparr>audioChunksRef := [], error := None, duration := 0\<rparr>
      in if \<not> has_getUserMedia pf
         then Settled (startRecording_catch
                (Error_obj ''Error'' ''Your browser does not support audio recording. Please use a modern browser like Chrome, Firefox, or Safari.'') s2)
         else Awaiting s2)"

text \<open>
  \<^verbatim>\<open>startRecording\<close> from the point where the promise settles, at time \<open>now\<close>
  (\<^verbatim>\<open>Date.now()\<close>). A resolved stream has live tracks.
\<close>

definition startRecording_resume ::
  "platform \<Rightarrow> acquisition \<Rightarrow> int \<Rightarrow> recorder_state \<Rightarrow> recorder_state" where
  "startRecording_resume pf outcome now s =
     (case outcome of
        Rejected err \<Rightarrow> startRecording_catch err s
      | Acquired stream \<Rightarrow>
          (let s1 = s\<lparr>live_streams := insert stream (live_streams s), streamRef := Some stream\<rparr>
           in if \<not> has_MediaRecorder pf
              then startRecording_catch
                     (Error_obj ''Error'' ''MediaRecorder is not supported in your browser.'') s1
              else
                (let mimeType = negotiate_mimeType pf in
                 case constructor_throws pf of
                   Some err \<Rightarrow> startRecording_catch err s1
                 | None \<Rightarrow>
                     (let s2 = s1\<lparr>mediaRecorderRef :=
                                   Some \<lparr>mr_mimeType = mimeType, mr_recording = False\<rparr>\<rparr>
                      in case start_throws pf of
                           Some err \<Rightarrow> startRecording_catch err s2
                         | None \<Rightarrow>
                             (let timer = next_handle s2
                              in s2\<lparr>mediaRecorderRef :=
                                      Some \<lparr>mr_mimeType = mimeType, mr_recording = True\<rparr>,
                                    recordingState := Recording,
                                    startTimeRef := now,
                                    durationIntervalRef := Some timer,
                                    active_timers := insert timer (active_timers s2),
                                    next_handle := Suc timer\<rparr>)))))"

subsection \<open>The listeners of the recorder object and the timer\<close>

text \<open>\<^verbatim>\<open>dataavailable\<close>: \<^verbatim>\<open>if (event.data && event.data.size > 0) push\<close>.\<close>

definition on_dataavailable :: "Blob option \<Rightarrow> recorder_state \<Rightarrow> recorder_state" where
  "on_dataavailable data s =
     (case data of
        None \<Rightarrow> s
      | Some b \<Rightarrow>
          if blob_size b > 0 then s\<lparr>audioChunksRef := audioChunksRef s @ [b]\<rparr> else s)"

text \<open>
  \<^verbatim>\<open>stop\<close>, for the recorder whose listener closed over \<open>mimeType\<close>. Both error branches
  return before the timer is cleared and the tracks are stopped.
\<close>

definition on_stop :: "string \<Rightarrow> recorder_state \<Rightarrow> recorder_state" where
  "on_stop mimeType s =
     (if length (audioChunksRef s) = 0
      then s\<lparr>error := Some ''No audio data was recorded. Please try again.'',
             recordingState := Inactive\<rparr>
      else
        (let audioBlob = new_Blob (audioChunksRef s)
                           (if mimeType \<noteq> [] then mimeType else ''audio/wav'')
         in if blob_size audioBlob = 0
            then s\<lparr>error := Some ''Recording failed - no audio data captured.'',
                   recordingState := Inactive\<rparr>
            else
              (let url = next_handle s;
                   s1 = s\<lparr>object_urls := (object_urls s)(url \<mapsto> audioBlob),
                          next_handle := Suc url,
                          audioURL := Some url,
                          recordingState := Stopped\<rparr>
               in stop_tracks (clear_duration_timer s1))))"

text \<open>\<^verbatim>\<open>error\<close>.\<close>

definition on_error :: "recorder_state \<Rightarrow> recorder_state" where
  "on_error s =
     s\<lparr>error := Some ''Recording failed due to an error. Please try again.'',
       recordingState := Inactive\<rparr>"

text \<open>
  The interval callback, at time \<open>now\<close>:
  \<^verbatim>\<open>setDuration(Math.floor((Date.now() - startTimeRef.current) / 1000))\<close>.
\<close>

definition on_tick :: "int \<Rightarrow> recorder_state \<Rightarrow> recorder_state" where
  "on_tick now s = s\<lparr>duration := (now - startTimeRef s) div 1000\<rparr>"

subsection \<open>Stopping and resetting a recording\<close>

text \<open>
  \<^verbatim>\<open>useCallback(..., [recordingState])\<close> and \<^verbatim>\<open>useCallback(..., [audioURL, recordingState])\<close>:
  the callbacks read the \<^verbatim>\<open>recordingState\<close> and \<^verbatim>\<open>audioURL\<close> of the render that built them
  (\<open>cap_recordingState\<close>, \<open>cap_audioURL\<close>), and the refs as they are now.
\<close>

definition stopRecording :: "RecordingState \<Rightarrow> recorder_state \<Rightarrow> recorder_state" where
  "stopRecording cap_recordingState s =
     (if mediaRecorderRef s \<noteq> None \<and> cap_recordingState = Recording
      then MediaRecorder_stop s else s)"

definition resetRecording ::
  "nat option \<Rightarrow> RecordingState \<Rightarrow> recorder_state \<Rightarrow> recorder_state" where
  "resetRecording cap_audioURL cap_recordingState s =
     (let s1 = (if mediaRecorderRef s \<noteq> None \<and> cap_recordingState = Recording
                then MediaRecorder_stop s else s);
          s2 = (case cap_audioURL of Some url \<Rightarrow> revokeObjectURL url s1 | None \<Rightarrow> s1);
          s3 = stop_tracks s2;
          s4 = clear_duration_timer s3
      in s4\<lparr>audioURL := None, recordingState := Inactive, error := None, duration := 0,
            audioChunksRef := []\<rparr>)"

text \<open>What the hook returns to its caller.\<close>

record AudioRecorderResult =
  res_recordingState :: RecordingState
  res_audioURL :: "nat option"
  res_isRecording :: bool
  res_error :: "string option"
  res_duration :: int

definition useAudioRecorder_result :: "recorder_state \<Rightarrow> AudioRecorderResult" where
  "useAudioRecorder_result s =
     \<lparr>res_recordingState = recordingState s, res_audioURL = audioURL s,
      res_isRecording = (recordingState s = Recording), res_error = error s,
      res_duration = duration s\<rparr>"

subsection \<open>Runs of the recorder\<close>

text \<open>
  Everything that can happen to the hook: a call of one of its three functions (with the
  values its closure captured), the settling of a pending acquisition, an event of a
  recorder object, a tick of a timer. A tick is delivered only for a timer that is
  still active.
\<close>

datatype recorder_event =
    Call_startRecording "nat option" platform
  | Settle_getUserMedia platform acquisition int
  | Ev_dataavailable "Blob option"
  | Ev_stop string
  | Ev_error
  | Ev_tick nat int
  | Call_stopRecording RecordingState
  | Call_resetRecording "nat option" RecordingState

fun recorder_step :: "recorder_state \<Rightarrow> recorder_event \<Rightarrow> recorder_state" where
  "recorder_step s (Call_startRecording cap_audioURL pf) =
     state_of (startRecording_begin cap_audioURL pf s)"
| "recorder_step s (Settle_getUserMedia pf outcome now) =
     startRecording_resume pf outcome now s"
| "recorder_step s (Ev_dataavailable data) = on_dataavailable data s"
| "recorder_step s (Ev_stop mimeType) = on_stop mimeType s"
| "recorder_step s Ev_error = on_error s"
| "recorder_step s (Ev_tick timer now) =
     (if timer \<in> active_timers s then on_tick now s else s)"
| "recorder_step s (Call_stopRecording cap_recordingState) =
     stopRecording cap_recordingState s"
| "recorder_step s (Call_resetRecording cap_audioURL cap_recordingState) =
     resetRecording cap_audioURL cap_recordingState s"

definition recorder_run :: "recorder_event list \<Rightarrow> recorder_state" where
  "recorder_run evs = foldl recorder_step recorder_init evs"

text \<open>A browser with everything the recorder asks for.\<close>

definition full_platform :: platform where
  "full_platform =
     \<lparr>has_getUserMedia = True, has_MediaRecorder = True,
      supported_types = [''audio/webm;codecs=opus'', ''audio/webm'', ''audio/mp4''],
      constructor_throws = None, start_throws = None\<rparr>"

section \<open>The transcription client\<close>

text \<open>
  \<^verbatim>\<open>DeepgramLiveTranscription\<close> (\<^verbatim>\<open>utils/deepgramClient\<close>), of which the application holds
  one instance, \<^verbatim>\<open>deepgramClient\<close>. The connection object belongs to the SDK: the model
  keeps what the client hands to it, the frames passed to \<^verbatim>\<open>send\<close> and the number of calls
  of \<^verbatim>\<open>finish\<close>, both assumed to return normally, and the connection's own state:
  whether it has opened. A connection is made unopened; it is open from the moment it
  emits \<^verbatim>\<open>Open\<close> until it emits \<^verbatim>\<open>Close\<close>. \<open>warnings\<close> counts the calls of
  \<^verbatim>\<open>console.warn\<close>.
\<close>

type_synonym frame = "16 word list"

record live_connection =
  sent :: "frame list"
  finish_calls :: nat
  opened :: bool

record DeepgramLiveTranscription =
  connection :: "live_connection option"
  isConnected :: bool
  warnings :: nat

definition new_client :: DeepgramLiveTranscription where
  "new_client = \<lparr>connection = None, isConnected = False, warnings = 0\<rparr>"

text \<open>
  \<^verbatim>\<open>startLiveTranscription\<close>: \<^verbatim>\<open>this.connection = this.client.listen.live(defaultConfig)\<close>,
  then the listeners are registered. \<^verbatim>\<open>this.isConnected\<close> is not touched.
\<close>

definition startLiveTranscription :: "DeepgramLiveTranscription \<Rightarrow> DeepgramLiveTranscription" where
  "startLiveTranscription c =
     c\<lparr>connection := Some \<lparr>sent = [], finish_calls = 0, opened = False\<rparr>\<rparr>"

definition sendAudio :: "frame \<Rightarrow> DeepgramLiveTranscription \<Rightarrow> DeepgramLiveTranscription" where
  "sendAudio audioData c =
     (if connection c \<noteq> None \<and> isConnected c
      then c\<lparr>connection := map_option (\<lambda>k. k\<lparr>sent := sent k @ [audioData]\<rparr>) (connection c)\<rparr>
      else c\<lparr>warnings := Suc (warnings c)\<rparr>)"

definition stopTranscription :: "DeepgramLiveTranscription \<Rightarrow> DeepgramLiveTranscription" where
  "stopTranscription c =
     (case connection c of
        Some k \<Rightarrow> c\<lparr>connection := Some (k\<lparr>finish_calls := Suc (finish_calls k)\<rparr>),
                    isConnected := False\<rparr>
      | None \<Rightarrow> c)"

definition isConnectionActive :: "DeepgramLiveTranscription \<Rightarrow> bool" where
  "isConnectionActive c = isConnected c"

text \<open>
  The SDK's side of the \<^verbatim>\<open>Open\<close> and \<^verbatim>\<open>Close\<close> events of the connection the client refers
  to: the connection opens, or closes, and then the client's listener runs.
\<close>

definition sdk_opens :: "DeepgramLiveTranscription \<Rightarrow> DeepgramLiveTranscription" where
  "sdk_opens c = c\<lparr>connection := map_option (\<lambda>k. k\<lparr>opened := True\<rparr>) (connection c)\<rparr>"

definition sdk_closes :: "DeepgramLiveTranscription \<Rightarrow> DeepgramLiveTranscription" where
  "sdk_closes c = c\<lparr>connection := map_option (\<lambda>k. k\<lparr>opened := False\<rparr>) (connection c)\<rparr>"

text \<open>The frames the client has handed to its current connection.\<close>

definition transmitted :: "DeepgramLiveTranscription \<Rightarrow> frame list" where
  "transmitted c = (case connection c of None \<Rightarrow> [] | Some k \<Rightarrow> sent k)"

section \<open>The live transcription hook\<close>

text \<open>
  \<^verbatim>\<open>src/hooks/useDeepgramLive.ts\<close>. \<^verbatim>\<open>LiveConnectionState\<close> is the SDK's enumeration; the
  hook's \<^verbatim>\<open>connectionState\<close> is one of its values or \<^verbatim>\<open>null\<close>.
\<close>

datatype LiveConnectionState = CONNECTING | OPEN | CLOSING | CLOSED

record word_info =
  w_word :: string
  w_start :: rat
  w_end :: rat
  w_confidence :: rat

text \<open>
  \<^verbatim>\<open>TranscriptionResult\<close>, without \<^verbatim>\<open>speaker\<close>, \<^verbatim>\<open>start\<close> and \<^verbatim>\<open>end\<close>, which the hook does
  not read.
\<close>

record TranscriptionResult =
  tr_transcript :: string
  tr_confidence :: rat
  is_final :: bool
  tr_words :: "word_info list option"

text \<open>
  The payload of the SDK's \<^verbatim>\<open>Transcript\<close> event, as far as the client reads it:
  \<^verbatim>\<open>data.channel?.alternatives?.[0]\<close> with its optional fields, and \<^verbatim>\<open>data.is_final\<close>.
\<close>

record alternative =
  alt_transcript :: "string option"
  alt_confidence :: "rat option"
  alt_words :: "word_info list option"

record transcript_data =
  first_alternative :: "alternative option"
  data_is_final :: "bool option"

text \<open>
  The hook's state and refs, the browser resources it holds (streams with live tracks,
  audio contexts not yet closed, script processors still connected) and the client.
  The fields \<open>errorL\<close>, \<open>isConnectedL\<close> and \<open>streamRefL\<close> are the hook's \<^verbatim>\<open>error\<close>,
  \<^verbatim>\<open>isConnected\<close> and \<^verbatim>\<open>streamRef\<close>.
\<close>

record listener_state =
  transcript :: string
  interimTranscript :: string
  finalTranscript :: string
  confidence :: rat
  isConnectedL :: bool
  isListening :: bool
  errorL :: "string option"
  connectionState :: "LiveConnectionState option"
  words :: "word_info list"
  streamRefL :: "nat option"
  audioContextRef :: "nat option"
  processorRef :: "nat option"
  live_streamsL :: "nat set"
  open_contexts :: "nat set"
  connected_processors :: "nat set"
  next_node :: nat
  deepgramClient :: DeepgramLiveTranscription

definition listener_init :: listener_state where
  "listener_init =
     \<lparr>transcript = [], interimTranscript = [], finalTranscript = [], confidence = 0,
      isConnectedL = False, isListening = False, errorL = None, connectionState = None,
      words = [], streamRefL = None, audioContextRef = None, processorRef = None,
      live_streamsL = {}, open_contexts = {}, connected_processors = {}, next_node = 1,
      deepgramClient = new_client\<rparr>"

text \<open>
  What the browser and the SDK offer to \<^verbatim>\<open>startListening\<close>: whether
  \<^verbatim>\<open>navigator.mediaDevices\<close> exists, and whether the \<^verbatim>\<open>AudioContext\<close> constructor or
  \<^verbatim>\<open>client.listen.live\<close> throws.
\<close>

record listen_platform =
  has_mediaDevices :: bool
  audio_context_throws :: "thrown option"
  listen_live_throws :: "thrown option"

subsection \<open>Starting to listen\<close>

text \<open>
  The \<^verbatim>\<open>catch\<close> block of \<^verbatim>\<open>startListening\<close>:
  \<^verbatim>\<open>setError(err instanceof Error ? err.message : 'Failed to start listening');
  setIsListening(false);\<close>
\<close>

definition startListening_catch :: "thrown \<Rightarrow> listener_state \<Rightarrow> listener_state" where
  "startListening_catch err s =
     s\<lparr>errorL := Some (case err of
                         Error_obj name message \<Rightarrow> message
                       | Non_error \<Rightarrow> ''Failed to start listening''),
       isListening := False\<rparr>"

text \<open>
  \<^verbatim>\<open>startListening\<close> up to \<^verbatim>\<open>await navigator.mediaDevices.getUserMedia(...)\<close>. Without
  \<^verbatim>\<open>navigator.mediaDevices\<close> the member access throws a \<^verbatim>\<open>TypeError\<close>, whose message
  depends on the engine.
\<close>

definition startListening_begin ::
  "listen_platform \<Rightarrow> listener_state \<Rightarrow> listener_state async" where
  "startListening_begin pf s =
     (let s1 = s\<lparr>errorL := None, isListening := True\<rparr>
      in if \<not> has_mediaDevices pf
         then Settled (startListening_catch
                (Error_obj ''TypeError'' ''navigator.mediaDevices is undefined'') s1)
         else Awaiting s1)"

text \<open>
  \<^verbatim>\<open>startListening\<close> from the point where the promise settles: the stream is kept, the
  audio context and the script processor are created and connected, and the client opens
  a connection. The second \<^verbatim>\<open>await\<close> is the last statement of the \<^verbatim>\<open>try\<close> block; nothing
  follows it.
\<close>

definition startListening_resume ::
  "listen_platform \<Rightarrow> acquisition \<Rightarrow> listener_state \<Rightarrow> listener_state" where
  "startListening_resume pf outcome s =
     (case outcome of
        Rejected err \<Rightarrow> startListening_catch err s
      | Acquired stream \<Rightarrow>
          (let s1 = s\<lparr>live_streamsL := insert stream (live_streamsL s),
                      streamRefL := Some stream\<rparr>
           in case audio_context_throws pf of
                Some err \<Rightarrow> startListening_catch err s1
              | None \<Rightarrow>
                  (let ctx = next_node s1;
                       processor = Suc ctx;
                       s2 = s1\<lparr>audioContextRef := Some ctx,
                               open_contexts := insert ctx (open_contexts s1),
                               processorRef := Some processor,
                               connected_processors :=
                                 insert processor (connected_processors s1),
                               next_node := Suc processor\<rparr>
                   in case listen_live_throws pf of
                        Some err \<Rightarrow> startListening_catch err s2
                      | None \<Rightarrow>
                          s2\<lparr>deepgramClient :=
                                startLiveTranscription (deepgramClient s2)\<rparr>)))"

subsection \<open>The callbacks\<close>

text \<open>
  \<^verbatim>\<open>onaudioprocess\<close>: convert and send, if the client says its connection is active.
\<close>

definition onaudioprocess :: "jsnum list \<Rightarrow> listener_state \<Rightarrow> listener_state" where
  "onaudioprocess inputData s =
     (if isConnectionActive (deepgramClient s)
      then s\<lparr>deepgramClient := sendAudio (float32_to_int16 inputData) (deepgramClient s)\<rparr>
      else s)"

text \<open>
  The \<^verbatim>\<open>onTranscript\<close> callback the hook passes to the client. The functional updates
  \<^verbatim>\<open>prev => prev + ' ' + result.transcript\<close> read the state as it is.
\<close>

definition onTranscript :: "TranscriptionResult \<Rightarrow> listener_state \<Rightarrow> listener_state" where
  "onTranscript result s =
     (let s1 = (if is_final result
                then s\<lparr>finalTranscript := finalTranscript s @ '' '' @ tr_transcript result,
                       interimTranscript := [],
                       transcript := transcript s @ '' '' @ tr_transcript result\<rparr>
                else s\<lparr>interimTranscript := tr_transcript result\<rparr>);
          s2 = s1\<lparr>confidence := tr_confidence result\<rparr>
      in case tr_words result of
           Some ws \<Rightarrow> s2\<lparr>words := ws\<rparr>
         | None \<Rightarrow> s2)"

text \<open>The \<^verbatim>\<open>onError\<close> callback: \<^verbatim>\<open>setError(error.message || 'Transcription error occurred')\<close>.\<close>

definition onError :: "string option \<Rightarrow> listener_state \<Rightarrow> listener_state" where
  "onError message s =
     s\<lparr>errorL := Some (case message of
                         None \<Rightarrow> ''Transcription error occurred''
                       | Some m \<Rightarrow> if m = [] then ''Transcription error occurred'' else m)\<rparr>"

text \<open>The \<^verbatim>\<open>onConnectionChange\<close> callback.\<close>

definition onConnectionChange :: "LiveConnectionState \<Rightarrow> listener_state \<Rightarrow> listener_state" where
  "onConnectionChange state s =
     s\<lparr>connectionState := Some state, isConnectedL := (state = OPEN)\<rparr>"

text \<open>
  The client's listeners for the SDK's \<^verbatim>\<open>Open\<close>, \<^verbatim>\<open>Close\<close>, \<^verbatim>\<open>Error\<close> and \<^verbatim>\<open>Transcript\<close>
  events, with the hook's callbacks.
\<close>

definition on_Open :: "listener_state \<Rightarrow> listener_state" where
  "on_Open s =
     onConnectionChange OPEN (s\<lparr>deepgramClient := (deepgramClient s)\<lparr>isConnected := True\<rparr>\<rparr>)"

definition on_Close :: "listener_state \<Rightarrow> listener_state" where
  "on_Close s =
     onConnectionChange CLOSED (s\<lparr>deepgramClient := (deepgramClient s)\<lparr>isConnected := False\<rparr>\<rparr>)"

definition on_Error :: "string option \<Rightarrow> listener_state \<Rightarrow> listener_state" where
  "on_Error message s = onError message s"

definition on_Transcript :: "transcript_data \<Rightarrow> listener_state \<Rightarrow> listener_state" where
  "on_Transcript data s =
     (case first_alternative data of
        None \<Rightarrow> s
      | Some result \<Rightarrow>
          onTranscript
            \<lparr>tr_transcript = (case alt_transcript result of Some t \<Rightarrow> t | None \<Rightarrow> []),
             tr_confidence = (case alt_confidence result of Some c \<Rightarrow> c | None \<Rightarrow> 0),
             is_final = (case data_is_final data of Some b \<Rightarrow> b | None \<Rightarrow> False),
             tr_words = alt_words result\<rparr> s)"

subsection \<open>Stopping and clearing\<close>

definition stopListening :: "listener_state \<Rightarrow> listener_state" where
  "stopListening s =
     (let s1 = s\<lparr>isListening := False\<rparr>;
          s2 = s1\<lparr>deepgramClient := stopTranscription (deepgramClient s1)\<rparr>;
          s3 = (case processorRef s2 of
                  Some p \<Rightarrow> s2\<lparr>connected_processors := connected_processors s2 - {p},
                              processorRef := None\<rparr>
                | None \<Rightarrow> s2);
          s4 = (case audioContextRef s3 of
                  Some ctx \<Rightarrow> s3\<lparr>open_contexts := open_contexts s3 - {ctx},
                                audioContextRef := None\<rparr>
                | None \<Rightarrow> s3);
          s5 = (case streamRefL s4 of
                  Some stream \<Rightarrow> s4\<lparr>live_streamsL := live_streamsL s4 - {stream},
                                   streamRefL := None\<rparr>
                | None \<Rightarrow> s4)
      in s5\<lparr>isConnectedL := False, connectionState := None\<rparr>)"

definition clearTranscript :: "listener_state \<Rightarrow> listener_state" where
  "clearTranscript s =
     s\<lparr>transcript := [], interimTranscript := [], finalTranscript := [], confidence := 0,
       words := [], errorL := None\<rparr>"

text \<open>
  What the hook returns to its caller; \<^verbatim>\<open>transcript\<close> and \<^verbatim>\<open>finalTranscript\<close> are returned
  trimmed, which is a function of the fields kept here.
\<close>

record UseDeepgramLiveResult =
  res_transcript :: string
  res_interimTranscript :: string
  res_finalTranscript :: string
  res_confidence :: rat
  res_isConnected :: bool
  res_isListening :: bool
  res_errorL :: "string option"
  res_connectionState :: "LiveConnectionState option"
  res_words :: "word_info list"

definition useDeepgramLive_result :: "listener_state \<Rightarrow> UseDeepgramLiveResult" where
  "useDeepgramLive_result s =
     \<lparr>res_transcript = transcript s, res_interimTranscript = interimTranscript s,
      res_finalTranscript = finalTranscript s, res_confidence = confidence s,
      res_isConnected = isConnectedL s, res_isListening = isListening s,
      res_errorL = errorL s, res_connectionState = connectionState s,
      res_words = words s\<rparr>"

subsection \<open>Runs of the listener\<close>

text \<open>
  The calls and events of one mounted instance of the hook, with the connection the
  client refers to. The SDK's events come from that connection, so none is delivered
  before the client has created one; an audio callback comes from a script processor that
  is still connected. A run starts with a client that has not been used. The client is
  shared by every instance of the hook and outlives them, and a connection that it has
  replaced still has its listeners: the runs do not cover the events of such a connection
  nor a hook mounted on a used client. They serve to reach concrete states; nothing
  below is stated for all runs of the listener.
\<close>

datatype listener_event =
    Call_startListening listen_platform
  | Settle_listen listen_platform acquisition
  | Ev_audioprocess "jsnum list"
  | Ev_Open
  | Ev_Close
  | Ev_Error "string option"
  | Ev_Transcript transcript_data
  | Call_stopListening
  | Call_clearTranscript

fun listener_step :: "listener_state \<Rightarrow> listener_event \<Rightarrow> listener_state" where
  "listener_step s (Call_startListening pf) = state_of (startListening_begin pf s)"
| "listener_step s (Settle_listen pf outcome) = startListening_resume pf outcome s"
| "listener_step s (Ev_audioprocess inputData) =
     (if connected_processors s \<noteq> {} then onaudioprocess inputData s else s)"
| "listener_step s Ev_Open =
     (if connection (deepgramClient s) \<noteq> None
      then on_Open (s\<lparr>deepgramClient := sdk_opens (deepgramClient s)\<rparr>) else s)"
| "listener_step s Ev_Close =
     (if connection (deepgramClient s) \<noteq> None
      then on_Close (s\<lparr>deepgramClient := sdk_closes (deepgramClient s)\<rparr>) else s)"
| "listener_step s (Ev_Error message) =
     (if connection (deepgramClient s) \<noteq> None then on_Error message s else s)"
| "listener_step s (Ev_Transcript data) =
     (if connection (deepgramClient s) \<noteq> None then on_Transcript data s else s)"
| "listener_step s Call_stopListening = stopListening s"
| "listener_step s Call_clearTranscript = clearTranscript s"

definition listener_run :: "listener_event list \<Rightarrow> listener_state" where
  "listener_run evs = foldl listener_step listener_init evs"

definition full_listen_platform :: listen_platform where
  "full_listen_platform =
     \<lparr>has_mediaDevices = True, audio_context_throws = None, listen_live_throws = None\<rparr>"

section \<open>How the transcription component reads the connection state\<close>


section \<open>Concrete sessions\<close>

text \<open>
  A recording that is started on a full platform, acquires stream 7 at time 1000, and is
  stopped before any chunk arrived: the recorder's last \<^verbatim>\<open>dataavailable\<close> event carries an
  empty blob, and its \<^verbatim>\<open>stop\<close> event follows.
\<close>

definition zero_chunk_session :: "recorder_event list" where
  "zero_chunk_session =
     [Call_startRecording None full_platform,
      Settle_getUserMedia full_platform (Acquired 7) 1000,
      Call_stopRecording Recording,
      Ev_dataavailable (Some \<lparr>blob_bytes = [], blob_type = ''audio/webm;codecs=opus''\<rparr>),
      Ev_stop ''audio/webm;codecs=opus'']"

text \<open>A recording with three chunks, one of them empty, and an event without data.\<close>

definition three_chunk_session :: "recorder_event list" where
  "three_chunk_session =
     [Call_startRecording None full_platform,
      Settle_getUserMedia full_platform (Acquired 7) 1000,
      Ev_dataavailable (Some \<lparr>blob_bytes = [1, 2, 3], blob_type = ''audio/webm;codecs=opus''\<rparr>),
      Ev_dataavailable (Some \<lparr>blob_bytes = [], blob_type = ''audio/webm;codecs=opus''\<rparr>),
      Ev_dataavailable None,
      Ev_dataavailable (Some \<lparr>blob_bytes = [4], blob_type = ''audio/webm;codecs=opus''\<rparr>),
      Call_stopRecording Recording]"

text \<open>\<^verbatim>\<open>resetRecording\<close> called while the acquisition of stream 7 is pending.\<close>

definition reset_during_acquisition :: "recorder_event list" where
  "reset_during_acquisition =
     [Call_startRecording None full_platform,
      Call_resetRecording None Inactive,
      Settle_getUserMedia full_platform (Acquired 7) 1000]"

text \<open>\<^verbatim>\<open>stopListening\<close> called while the acquisition of stream 7 is pending.\<close>

definition stop_during_acquisition :: "listener_event list" where
  "stop_during_acquisition =
     [Call_startListening full_listen_platform,
      Call_stopListening,
      Settle_listen full_listen_platform (Acquired 7)]"

text \<open>\<^verbatim>\<open>startRecording\<close> called again while a recording is in progress.\<close>

definition second_startRecording :: "recorder_event list" where
  "second_startRecording =
     [Call_startRecording None full_platform,
      Settle_getUserMedia full_platform (Acquired 1) 1000,
      Call_startRecording None full_platform,
      Settle_getUserMedia full_platform (Acquired 2) 2000]"

text \<open>\<^verbatim>\<open>startListening\<close> called again while listening.\<close>

definition second_startListening :: "listener_event list" where
  "second_startListening =
     [Call_startListening full_listen_platform,
      Settle_listen full_listen_platform (Acquired 1),
      Ev_Open,
      Call_startListening full_listen_platform,
      Settle_listen full_listen_platform (Acquired 2)]"

text \<open>A listening session whose connection has opened.\<close>

definition open_session :: "listener_event list" where
  "open_session =
     [Call_startListening full_listen_platform,
      Settle_listen full_listen_platform (Acquired 3),
      Ev_Open]"

section \<open>Final segments as text, and the invariant of the chunk buffer\<close>

text \<open>
  The string that stands for a sequence of final segments: every segment preceded by a
  single space, as \<^verbatim>\<open>prev + ' ' + result.transcript\<close> builds it from the empty string.
\<close>

definition joined_segments :: "string list \<Rightarrow> string" where
  "joined_segments segs = concat (map (\<lambda>t. '' '' @ t) segs)"

text \<open>
  Every chunk in the buffer has bytes, and the message of the zero-byte branch of the
  \<^verbatim>\<open>stop\<close> listener has not been set.
\<close>

definition chunks_inv :: "recorder_state \<Rightarrow> bool" where
  "chunks_inv s =
     ((\<forall>b\<in>set (audioChunksRef s). 0 < blob_size b)
    \<and> error s \<noteq> Some ''Recording failed - no audio data captured.'')"

section \<open>Concrete results\<close>

text \<open>An interim result and a final result, as the client passes them to the hook.\<close>

definition interim_hel :: TranscriptionResult where
  "interim_hel =
     \<lparr>tr_transcript = ''hel'', tr_confidence = 1 / 2, is_final = False, tr_words = None\<rparr>"

definition final_hello_world :: TranscriptionResult where
  "final_hello_world =
     \<lparr>tr_transcript = ''hello world'', tr_confidence = 9 / 10, is_final = True,
      tr_words = Some []\<rparr>"

text \<open>
  Listening is started and stopped while the acquisition is pending; stream 1 is acquired
  and the connection opens; listening is started again and stream 2 is acquired.
\<close>

definition restart_after_late_grant :: "listener_event list" where
  "restart_after_late_grant =
     [Call_startListening full_listen_platform,
      Call_stopListening,
      Settle_listen full_listen_platform (Acquired 1),
      Ev_Open,
      Call_startListening full_listen_platform,
      Settle_listen full_listen_platform (Acquired 2)]"

section \<open>Properties of the frame conversion\<close>

lemma js_trunc_int16_range:
  "- 32768 \<le> q \<Longrightarrow> q \<le> 32767 \<Longrightarrow> - 32768 \<le> js_trunc q \<and> js_trunc q \<le> 32767"
  unfolding js_trunc_def
  by (auto simp: le_floor_iff floor_le_iff ceiling_le_iff le_ceiling_iff)

lemma sint_int16_of_int:
  "- 32768 \<le> k \<Longrightarrow> k \<le> 32767 \<Longrightarrow> sint (word_of_int k :: 16 word) = k"
  by (simp add: sint_sbintrunc' signed_take_bit_int_eq_self)

lemma convert_sample_Fin:
  "convert_sample (Fin x) = word_of_int (js_trunc (clamp (x * 32768) (- 32768) 32767))"
  by (simp add: convert_sample_def clamp_def)

lemma clamp_range: "- 32768 \<le> clamp v (- 32768) 32767 \<and> clamp v (- 32768) 32767 \<le> 32767"
  by (simp add: clamp_def)

lemma sint_convert_sample_Fin:
  "sint (convert_sample (Fin x)) = js_trunc (clamp (x * 32768) (- 32768) 32767)"
proof -
  let ?q = "clamp (x * 32768) (- 32768) 32767"
  have "- 32768 \<le> js_trunc ?q \<and> js_trunc ?q \<le> 32767"
    using clamp_range [of "x * 32768"] by (intro js_trunc_int16_range) simp_all
  then show ?thesis
    by (simp add: convert_sample_Fin sint_int16_of_int)
qed

lemma convert_loop_prefix:
  "i \<le> length xs \<Longrightarrow> length out = length xs \<Longrightarrow>
   convert_loop xs i out = take i out @ map convert_sample (drop i xs)"
proof (induction xs i out rule: convert_loop.induct)
  case (1 inputData i int16Array)
  show ?case
  proof (cases "i < length inputData")
    case True
    let ?v = "convert_sample (inputData ! i)"
    have "convert_loop inputData i int16Array =
          convert_loop inputData (Suc i) (int16Array[i := ?v])"
      using True by (subst convert_loop.simps) simp
    also have "\<dots> = take (Suc i) (int16Array[i := ?v]) @
                       map convert_sample (drop (Suc i) inputData)"
      using True "1.prems" by (intro "1.IH") simp_all
    also have "take (Suc i) (int16Array[i := ?v]) = take i int16Array @ [?v]"
      using True "1.prems" by (simp add: take_Suc_conv_app_nth)
    also have "(take i int16Array @ [?v]) @ map convert_sample (drop (Suc i) inputData) =
               take i int16Array @ map convert_sample (drop i inputData)"
      using True by (simp add: Cons_nth_drop_Suc [symmetric])
    finally show ?thesis .
  next
    case False
    then show ?thesis
      using "1.prems" by (subst convert_loop.simps) simp
  qed
qed

lemma float32_to_int16_map: "float32_to_int16 xs = map convert_sample xs"
  by (simp add: float32_to_int16_def convert_loop_prefix)

text \<open>
  Claim C3. Every finite sample \<open>x\<close> is stored as the 16-bit signed integer obtained from
  \<open>clamp (x * 32768) (-32768) 32767\<close> (its integer part, rounded towards zero, which the
  16-bit store then holds without wrapping): the stored value lies between \<open>-32768\<close> and
  \<open>32767\<close>, every \<open>x \<ge> 1\<close> gives \<open>32767\<close> and every \<open>x \<le> -1\<close> gives \<open>-32768\<close>; the
  infinities saturate in the same way, and the frame is converted element by element.
  NaN, which is no number to clamp, is stored as 0.
\<close>

theorem frame_conversion_saturates:
  "sint (convert_sample (Fin x)) = js_trunc (clamp (x * 32768) (- 32768) 32767)
   \<and> - 32768 \<le> sint (convert_sample (Fin x)) \<and> sint (convert_sample (Fin x)) \<le> 32767
   \<and> (1 \<le> x \<longrightarrow> sint (convert_sample (Fin x)) = 32767)
   \<and> (x \<le> - 1 \<longrightarrow> sint (convert_sample (Fin x)) = - 32768)
   \<and> sint (convert_sample PosInf) = 32767
   \<and> sint (convert_sample NegInf) = - 32768
   \<and> sint (convert_sample NaN) = 0
   \<and> float32_to_int16 xs = map convert_sample xs"
proof -
  let ?q = "clamp (x * 32768) (- 32768) 32767"
  have eq: "sint (convert_sample (Fin x)) = js_trunc ?q"
    by (rule sint_convert_sample_Fin)
  have rng: "- 32768 \<le> js_trunc ?q \<and> js_trunc ?q \<le> 32767"
    using clamp_range [of "x * 32768"] by (intro js_trunc_int16_range) simp_all
  have hi: "js_trunc ?q = 32767" if "1 \<le> x"
  proof -
    from that have "?q = 32767" by (simp add: clamp_def)
    then show ?thesis by (simp add: js_trunc_def)
  qed
  have lo: "js_trunc ?q = - 32768" if "x \<le> - 1"
  proof -
    from that have "?q = - 32768" by (simp add: clamp_def)
    then show ?thesis by (simp add: js_trunc_def)
  qed
  have pinf: "sint (convert_sample PosInf) = 32767"
    by (simp add: convert_sample_def js_trunc_def)
  have ninf: "sint (convert_sample NegInf) = - 32768"
    by (simp add: convert_sample_def js_trunc_def)
  have nan: "sint (convert_sample NaN) = 0"
    by (simp add: convert_sample_def)
  show ?thesis
    using eq rng hi lo pinf ninf nan float32_to_int16_map by simp
qed

theorem frame_conversion_saturates_witness:
  "(1::rat) \<le> 3 / 2 \<and> (- 2::rat) \<le> - 1
   \<and> sint (convert_sample (Fin (3 / 2))) = 32767
   \<and> sint (convert_sample (Fin (- 2))) = - 32768
   \<and> float32_to_int16 [Fin 1, Fin (- 1), Fin (1 / 2)] = [32767, - 32768, 16384]"
proof -
  have a: "sint (convert_sample (Fin (3 / 2))) = 32767"
    using frame_conversion_saturates [of "3 / 2" "[]"] by simp
  have b: "sint (convert_sample (Fin (- 2))) = - 32768"
    using frame_conversion_saturates [of "- 2" "[]"] by simp
  have c: "float32_to_int16 [Fin 1, Fin (- 1), Fin (1 / 2)] = [32767, - 32768, 16384]"
    using frame_conversion_saturates [of 0 "[Fin 1, Fin (- 1), Fin (1 / 2)]"]
    by (simp add: convert_sample_def js_trunc_def)
  show ?thesis using a b c by simp
qed

section \<open>Properties of the recorder\<close>

lemma blob_size_new_Blob: "blob_size (new_Blob parts ty) = sum_list (map blob_size parts)"
  by (induction parts) (simp_all add: blob_size_def new_Blob_def)

lemma stop_tracks_fields [simp]:
  "recordingState (stop_tracks s) = recordingState s"
  "audioURL (stop_tracks s) = audioURL s"
  "error (stop_tracks s) = error s"
  "duration (stop_tracks s) = duration s"
  "mediaRecorderRef (stop_tracks s) = mediaRecorderRef s"
  "audioChunksRef (stop_tracks s) = audioChunksRef s"
  "streamRef (stop_tracks s) = None"
  "startTimeRef (stop_tracks s) = startTimeRef s"
  "durationIntervalRef (stop_tracks s) = durationIntervalRef s"
  "active_timers (stop_tracks s) = active_timers s"
  "object_urls (stop_tracks s) = object_urls s"
  "next_handle (stop_tracks s) = next_handle s"
  by (simp_all add: stop_tracks_def split: option.splits)

lemma live_streams_stop_tracks [simp]:
  "live_streams (stop_tracks s) =
     (case streamRef s of None \<Rightarrow> live_streams s | Some st \<Rightarrow> live_streams s - {st})"
  by (simp add: stop_tracks_def split: option.splits)

lemma clear_duration_timer_fields [simp]:
  "recordingState (clear_duration_timer s) = recordingState s"
  "audioURL (clear_duration_timer s) = audioURL s"
  "error (clear_duration_timer s) = error s"
  "duration (clear_duration_timer s) = duration s"
  "mediaRecorderRef (clear_duration_timer s) = mediaRecorderRef s"
  "audioChunksRef (clear_duration_timer s) = audioChunksRef s"
  "streamRef (clear_duration_timer s) = streamRef s"
  "startTimeRef (clear_duration_timer s) = startTimeRef s"
  "durationIntervalRef (clear_duration_timer s) = None"
  "live_streams (clear_duration_timer s) = live_streams s"
  "object_urls (clear_duration_timer s) = object_urls s"
  "next_handle (clear_duration_timer s) = next_handle s"
  by (simp_all add: clear_duration_timer_def split: option.splits)

lemma active_timers_clear_duration_timer [simp]:
  "active_timers (clear_duration_timer s) =
     (case durationIntervalRef s of None \<Rightarrow> active_timers s | Some t \<Rightarrow> active_timers s - {t})"
  by (simp add: clear_duration_timer_def split: option.splits)

text \<open>A started recording, on a platform where nothing fails.\<close>

lemma startRecording_resume_Acquired:
  "has_MediaRecorder pf \<Longrightarrow> constructor_throws pf = None \<Longrightarrow> start_throws pf = None \<Longrightarrow>
   startRecording_resume pf (Acquired st) now s =
     s\<lparr>live_streams := insert st (live_streams s), streamRef := Some st,
       mediaRecorderRef := Some \<lparr>mr_mimeType = negotiate_mimeType pf, mr_recording = True\<rparr>,
       recordingState := Recording, startTimeRef := now,
       durationIntervalRef := Some (next_handle s),
       active_timers := insert (next_handle s) (active_timers s),
       next_handle := Suc (next_handle s)\<rparr>"
  by (simp add: startRecording_resume_def Let_def)

lemma startRecording_begin_Awaiting:
  "has_getUserMedia pf \<Longrightarrow>
   startRecording_begin u pf s =
     Awaiting ((case u of Some url \<Rightarrow> (revokeObjectURL url s)\<lparr>audioURL := None\<rparr> | None \<Rightarrow> s)
                 \<lparr>audioChunksRef := [], error := None, duration := 0\<rparr>)"
  by (simp add: startRecording_begin_def Let_def)

lemma startRecording_begin_own_url:
  "has_getUserMedia pf \<Longrightarrow>
   audioURL (state_of (startRecording_begin (audioURL s) pf s)) = None \<and>
   audioChunksRef (state_of (startRecording_begin (audioURL s) pf s)) = []"
  by (simp add: startRecording_begin_Awaiting revokeObjectURL_def split: option.splits)

text \<open>The \<^verbatim>\<open>catch\<close> block of \<^verbatim>\<open>startRecording\<close> releases the stream the hook refers to.\<close>

lemma startRecording_catch_releases:
  "streamRef (startRecording_catch err s) = None
   \<and> recordingState (startRecording_catch err s) = Inactive
   \<and> error (startRecording_catch err s) = Some (errorMessage err)
   \<and> live_streams (startRecording_catch err s) =
       (case streamRef s of None \<Rightarrow> live_streams s | Some st \<Rightarrow> live_streams s - {st})"
  by (simp add: startRecording_catch_def split: option.splits)

text \<open>
  The error branches of the \<^verbatim>\<open>stop\<close> listener and the \<^verbatim>\<open>error\<close> listener release nothing.
\<close>

lemma on_stop_error_branch_keeps_resources:
  "audioChunksRef s = [] \<Longrightarrow>
   streamRef (on_stop mimeType s) = streamRef s
   \<and> live_streams (on_stop mimeType s) = live_streams s
   \<and> durationIntervalRef (on_stop mimeType s) = durationIntervalRef s
   \<and> active_timers (on_stop mimeType s) = active_timers s"
  by (simp add: on_stop_def)

lemma on_error_keeps_resources:
  "streamRef (on_error s) = streamRef s
   \<and> live_streams (on_error s) = live_streams s
   \<and> durationIntervalRef (on_error s) = durationIntervalRef s
   \<and> active_timers (on_error s) = active_timers s"
  by (simp add: on_error_def)

text \<open>The last branch of the \<^verbatim>\<open>stop\<close> listener releases the stream and the timer.\<close>

lemma on_stop_success_releases:
  "recordingState (on_stop mimeType s) = Stopped \<Longrightarrow>
   streamRef (on_stop mimeType s) = None
   \<and> durationIntervalRef (on_stop mimeType s) = None
   \<and> (\<forall>st. streamRef s = Some st \<longrightarrow> st \<notin> live_streams (on_stop mimeType s))
   \<and> (\<forall>t. durationIntervalRef s = Some t \<longrightarrow> t \<notin> active_timers (on_stop mimeType s))"
  by (auto simp add: on_stop_def Let_def split: if_splits)

text \<open>
  Claim C1, at a concrete session. A recording is started, stream 7 is acquired and timer 1
  is set; the recording is stopped before any chunk with bytes arrived. The \<^verbatim>\<open>stop\<close> listener
  reports the error and returns: the hook still refers to stream 7, whose tracks are live,
  and timer 1 is still active, so that its next tick moves the duration.
\<close>

theorem zero_chunk_stop_leaves_microphone_open:
  "error (recorder_run zero_chunk_session) = Some ''No audio data was recorded. Please try again.''
   \<and> recordingState (recorder_run zero_chunk_session) = Inactive
   \<and> streamRef (recorder_run zero_chunk_session) = Some 7
   \<and> 7 \<in> live_streams (recorder_run zero_chunk_session)
   \<and> durationIntervalRef (recorder_run zero_chunk_session) = Some 1
   \<and> 1 \<in> active_timers (recorder_run zero_chunk_session)
   \<and> duration (recorder_run zero_chunk_session) = 0
   \<and> duration (recorder_step (recorder_run zero_chunk_session) (Ev_tick 1 6000)) = 5"
  by (simp add: recorder_run_def zero_chunk_session_def recorder_init_def full_platform_def
      startRecording_begin_def startRecording_resume_def stopRecording_def
      MediaRecorder_stop_def on_dataavailable_def blob_size_def on_stop_def on_tick_def
      Let_def negotiate_mimeType_def isTypeSupported_def)

lemma foldl_on_dataavailable_empty:
  "\<forall>d\<in>set ds. d = None \<or> (\<exists>b. d = Some b \<and> blob_size b = 0) \<Longrightarrow>
   foldl (\<lambda>s d. on_dataavailable d s) s ds = s"
  by (induction ds arbitrary: s) (auto simp: on_dataavailable_def)

lemma on_stop_empty:
  "audioChunksRef s = [] \<or> blob_size (new_Blob (audioChunksRef s) ty) = 0 \<Longrightarrow>
   error (on_stop mimeType s) \<noteq> None \<and> recordingState (on_stop mimeType s) = Inactive
   \<and> audioURL (on_stop mimeType s) = audioURL s
   \<and> object_urls (on_stop mimeType s) = object_urls s"
  by (auto simp add: on_stop_def Let_def blob_size_new_Blob)

lemma stopRecording_chunks [simp]:
  "audioChunksRef (stopRecording c s) = audioChunksRef s"
  "audioURL (stopRecording c s) = audioURL s"
  "object_urls (stopRecording c s) = object_urls s"
  by (simp_all add: stopRecording_def MediaRecorder_stop_def)

lemma zero_chunk_recording:
  assumes "has_getUserMedia pf" "has_MediaRecorder pf"
    and "constructor_throws pf = None" "start_throws pf = None"
    and "\<forall>d\<in>set (ds @ ds'). d = None \<or> (\<exists>b. d = Some b \<and> blob_size b = 0)"
  shows "let s1 = startRecording_resume pf (Acquired st) now
                    (state_of (startRecording_begin (audioURL s) pf s));
             s2 = stopRecording Recording (foldl (\<lambda>s d. on_dataavailable d s) s1 ds);
             s3 = on_stop (negotiate_mimeType pf) (foldl (\<lambda>s d. on_dataavailable d s) s2 ds')
         in recordingState s1 = Recording
            \<and> error s3 = Some ''No audio data was recorded. Please try again.''
            \<and> recordingState s3 = Inactive \<and> audioURL s3 = None
            \<and> object_urls s3 = object_urls s1"
proof -
  let ?s0 = "state_of (startRecording_begin (audioURL s) pf s)"
  let ?s1 = "startRecording_resume pf (Acquired st) now ?s0"
  let ?s2 = "stopRecording Recording ?s1"
  have f: "foldl (\<lambda>s d. on_dataavailable d s) ?s1 ds = ?s1"
    using assms(5) by (intro foldl_on_dataavailable_empty) simp
  have f': "foldl (\<lambda>s d. on_dataavailable d s) ?s2 ds' = ?s2"
    using assms(5) by (intro foldl_on_dataavailable_empty) simp
  have s1: "audioChunksRef ?s1 = []" "audioURL ?s1 = None" "recordingState ?s1 = Recording"
    using assms(1-4) startRecording_begin_own_url [of pf s]
    by (simp_all add: startRecording_resume_Acquired)
  show ?thesis
    unfolding Let_def f f' using s1
    by (simp add: on_stop_def)
qed

text \<open>
  Claim C7. When the \<^verbatim>\<open>stop\<close> listener runs with no chunk in the buffer, or with chunks
  whose assembled blob has zero bytes, it sets the error field, sets the recording state
  to inactive and produces no audio URL (the field and the set of object URLs are
  untouched). In a whole session, started by the current \<^verbatim>\<open>startRecording\<close> on a
  platform where nothing fails, in which every \<^verbatim>\<open>dataavailable\<close> event, before and after
  the call of \<^verbatim>\<open>stopRecording\<close>, carries no data or an empty blob, the \<^verbatim>\<open>stop\<close> event ends
  with that error, the state inactive and no audio URL.
\<close>

theorem empty_recording_is_an_error:
  "((audioChunksRef s = [] \<or> blob_size (new_Blob (audioChunksRef s) ty) = 0) \<longrightarrow>
      error (on_stop mimeType s) \<noteq> None
    \<and> recordingState (on_stop mimeType s) = Inactive
    \<and> audioURL (on_stop mimeType s) = audioURL s
    \<and> object_urls (on_stop mimeType s) = object_urls s)
   \<and> (has_getUserMedia pf \<and> has_MediaRecorder pf
       \<and> constructor_throws pf = None \<and> start_throws pf = None
       \<and> (\<forall>d\<in>set (ds @ ds'). d = None \<or> (\<exists>b. d = Some b \<and> blob_size b = 0)) \<longrightarrow>
      (let s1 = startRecording_resume pf (Acquired st) now
                  (state_of (startRecording_begin (audioURL s) pf s));
           s2 = stopRecording Recording (foldl (\<lambda>s d. on_dataavailable d s) s1 ds);
           s3 = on_stop (negotiate_mimeType pf) (foldl (\<lambda>s d. on_dataavailable d s) s2 ds')
       in recordingState s1 = Recording
          \<and> error s3 = Some ''No audio data was recorded. Please try again.''
          \<and> recordingState s3 = Inactive \<and> audioURL s3 = None
          \<and> object_urls s3 = object_urls s1))"
  using on_stop_empty [of s ty mimeType] zero_chunk_recording [of pf ds ds' st now s]
  by blast

theorem empty_recording_is_an_error_witness:
  "audioChunksRef (recorder_run zero_chunk_session) = []
   \<and> error (recorder_run zero_chunk_session)
       = Some ''No audio data was recorded. Please try again.''
   \<and> recordingState (recorder_run zero_chunk_session) = Inactive
   \<and> audioURL (recorder_run zero_chunk_session) = None
   \<and> error (on_stop ''audio/webm'' recorder_init) \<noteq> None
   \<and> recordingState (on_stop ''audio/webm'' recorder_init) = Inactive
   \<and> audioURL (on_stop ''audio/webm'' recorder_init) = None"
proof -
  let ?d = "Some \<lparr>blob_bytes = [], blob_type = ''audio/webm;codecs=opus''\<rparr>"
  have e: "audioChunksRef recorder_init = []" "audioURL recorder_init = None"
    by (simp_all add: recorder_init_def)
  have pf: "has_getUserMedia full_platform \<and> has_MediaRecorder full_platform
       \<and> constructor_throws full_platform = None \<and> start_throws full_platform = None
       \<and> (\<forall>d\<in>set ([] @ [?d]). d = None \<or> (\<exists>b. d = Some b \<and> blob_size b = 0))"
    by (simp add: full_platform_def blob_size_def)
  have run: "recorder_run zero_chunk_session =
      on_stop (negotiate_mimeType full_platform)
        (foldl (\<lambda>s d. on_dataavailable d s)
          (stopRecording Recording
            (foldl (\<lambda>s d. on_dataavailable d s)
              (startRecording_resume full_platform (Acquired 7) 1000
                (state_of (startRecording_begin (audioURL recorder_init) full_platform
                   recorder_init))) []))
          [?d])"
    by (simp add: recorder_run_def zero_chunk_session_def e negotiate_mimeType_def
        isTypeSupported_def full_platform_def)
  have c: "audioChunksRef (recorder_run zero_chunk_session) = []"
    by (simp add: recorder_run_def zero_chunk_session_def recorder_init_def full_platform_def
      startRecording_begin_def startRecording_resume_def stopRecording_def
      MediaRecorder_stop_def on_dataavailable_def blob_size_def on_stop_def Let_def
      negotiate_mimeType_def isTypeSupported_def)
  note inst = empty_recording_is_an_error
            [of recorder_init "''audio/webm''" "''audio/webm''" full_platform "[]" "[?d]"
                7 1000, unfolded Let_def, folded run]
  have "error (recorder_run zero_chunk_session)
          = Some ''No audio data was recorded. Please try again.''
      \<and> recordingState (recorder_run zero_chunk_session) = Inactive
      \<and> audioURL (recorder_run zero_chunk_session) = None
      \<and> error (on_stop ''audio/webm'' recorder_init) \<noteq> None
      \<and> recordingState (on_stop ''audio/webm'' recorder_init) = Inactive
      \<and> audioURL (on_stop ''audio/webm'' recorder_init) = audioURL recorder_init"
    using inst e(1) pf by blast
  then show ?thesis
    using c e(2) by simp
qed

lemma sum_list_blob_size_pos:
  "xs \<noteq> [] \<Longrightarrow> \<forall>b\<in>set xs. 0 < blob_size b \<Longrightarrow> 0 < sum_list (map blob_size xs)"
  by (cases xs) auto

lemma errorMessage_not_zero_byte:
  "errorMessage e \<noteq> ''Recording failed - no audio data captured.''"
  by (simp add: errorMessage_def)

lemma chunks_inv_step: "chunks_inv s \<Longrightarrow> chunks_inv (recorder_step s ev)"
proof (cases ev)
  case (Call_startRecording u pf)
  then show ?thesis
    by (simp add: chunks_inv_def startRecording_begin_def Let_def startRecording_catch_def
        errorMessage_not_zero_byte)
next
  case (Settle_getUserMedia pf outcome now)
  assume "chunks_inv s"
  then show ?thesis
    unfolding Settle_getUserMedia
    by (auto simp add: chunks_inv_def startRecording_resume_def Let_def
        startRecording_catch_def errorMessage_not_zero_byte
        split: acquisition.splits option.splits)
next
  case (Ev_dataavailable d)
  assume "chunks_inv s"
  then show ?thesis
    unfolding Ev_dataavailable
    by (auto simp add: chunks_inv_def on_dataavailable_def split: option.splits)
next
  case (Ev_stop m)
  assume "chunks_inv s"
  then show ?thesis
    unfolding Ev_stop
    using sum_list_blob_size_pos [of "audioChunksRef s"]
    by (auto simp add: chunks_inv_def on_stop_def Let_def blob_size_new_Blob)
next
  case Ev_error
  assume "chunks_inv s"
  then show ?thesis
    unfolding Ev_error by (simp add: chunks_inv_def on_error_def)
next
  case (Ev_tick t now)
  assume "chunks_inv s"
  then show ?thesis
    unfolding Ev_tick by (simp add: chunks_inv_def on_tick_def)
next
  case (Call_stopRecording c)
  assume "chunks_inv s"
  then show ?thesis
    unfolding Call_stopRecording
    by (simp add: chunks_inv_def stopRecording_def MediaRecorder_stop_def)
next
  case (Call_resetRecording u c)
  assume "chunks_inv s"
  then show ?thesis
    unfolding Call_resetRecording by (simp add: chunks_inv_def resetRecording_def Let_def)
qed

lemma chunks_inv_foldl: "chunks_inv s \<Longrightarrow> chunks_inv (foldl recorder_step s evs)"
  by (induction evs arbitrary: s) (simp_all add: chunks_inv_step)

lemma chunks_inv_run: "chunks_inv (recorder_run evs)"
  unfolding recorder_run_def
  by (rule chunks_inv_foldl) (simp add: chunks_inv_def recorder_init_def)

lemma on_stop_with_chunks:
  assumes "chunks_inv s" "audioChunksRef s \<noteq> []"
  shows "0 < blob_size (new_Blob (audioChunksRef s) ty)
     \<and> recordingState (on_stop mimeType s) = Stopped
     \<and> audioURL (on_stop mimeType s) = Some (next_handle s)
     \<and> (\<exists>artifact. object_urls (on_stop mimeType s) (next_handle s) = Some artifact
                    \<and> 0 < blob_size artifact)
     \<and> error (on_stop mimeType s) = error s"
proof -
  have pos: "0 < blob_size (new_Blob (audioChunksRef s) t)" for t
    using assms sum_list_blob_size_pos [of "audioChunksRef s"]
    by (simp add: chunks_inv_def blob_size_new_Blob)
  show ?thesis
    using assms(2) pos [of ty] pos [of "if mimeType \<noteq> [] then mimeType else ''audio/wav''"]
    by (simp add: on_stop_def Let_def)
qed

text \<open>
  Claim C10. After any sequence of calls and events, every chunk in the recorder's buffer
  has at least one byte. So when the \<^verbatim>\<open>stop\<close> listener finds a chunk, the assembled blob
  has more than zero bytes and the listener takes its last branch: the state becomes
  stopped and the audio URL refers to an artifact of positive size. The message of the
  zero-byte branch is never the hook's error.
\<close>

theorem chunk_buffer_holds_no_empty_chunk:
  "(\<forall>b\<in>set (audioChunksRef (recorder_run evs)). 0 < blob_size b)
   \<and> (audioChunksRef (recorder_run evs) \<noteq> [] \<longrightarrow>
        0 < blob_size (new_Blob (audioChunksRef (recorder_run evs)) ty)
      \<and> recordingState (on_stop mimeType (recorder_run evs)) = Stopped
      \<and> audioURL (on_stop mimeType (recorder_run evs)) = Some (next_handle (recorder_run evs))
      \<and> (\<exists>artifact. object_urls (on_stop mimeType (recorder_run evs))
                        (next_handle (recorder_run evs)) = Some artifact
                     \<and> 0 < blob_size artifact)
      \<and> error (on_stop mimeType (recorder_run evs)) = error (recorder_run evs))
   \<and> error (recorder_run evs) \<noteq> Some ''Recording failed - no audio data captured.''"
  using chunks_inv_run [of evs] on_stop_with_chunks [of "recorder_run evs" ty mimeType]
  by (simp add: chunks_inv_def)

theorem chunk_buffer_holds_no_empty_chunk_witness:
  "length (audioChunksRef (recorder_run three_chunk_session)) = 2
   \<and> 0 < blob_size (new_Blob (audioChunksRef (recorder_run three_chunk_session)) ''audio/wav'')
   \<and> recordingState (on_stop ''audio/webm;codecs=opus'' (recorder_run three_chunk_session))
       = Stopped
   \<and> audioURL (on_stop ''audio/webm;codecs=opus'' (recorder_run three_chunk_session)) = Some 2"
proof -
  have c: "length (audioChunksRef (recorder_run three_chunk_session)) = 2"
          "next_handle (recorder_run three_chunk_session) = 2"
    by (simp_all add: recorder_run_def three_chunk_session_def recorder_init_def
        full_platform_def startRecording_begin_def startRecording_resume_def
        stopRecording_def MediaRecorder_stop_def on_dataavailable_def blob_size_def Let_def
        negotiate_mimeType_def isTypeSupported_def)
  from c(1) have ne: "audioChunksRef (recorder_run three_chunk_session) \<noteq> []"
    by auto
  show ?thesis
    using chunk_buffer_holds_no_empty_chunk
            [of three_chunk_session "''audio/wav''" "''audio/webm;codecs=opus''"] c ne
    by simp
qed

section \<open>Properties of the live transcription hook and the client\<close>

lemma joined_segments_snoc:
  "joined_segments (segs @ [t]) = joined_segments segs @ '' '' @ t"
  by (simp add: joined_segments_def)

lemma joined_segments_Cons:
  "joined_segments (t # segs) = '' '' @ t @ joined_segments segs"
  by (simp add: joined_segments_def)

lemma onTranscript_final:
  "is_final r \<Longrightarrow>
     finalTranscript (onTranscript r s) = finalTranscript s @ '' '' @ tr_transcript r
   \<and> interimTranscript (onTranscript r s) = []
   \<and> transcript (onTranscript r s) = transcript s @ '' '' @ tr_transcript r"
  by (simp add: onTranscript_def Let_def split: option.splits)

lemma onTranscript_interim:
  "\<not> is_final r \<Longrightarrow>
     interimTranscript (onTranscript r s) = tr_transcript r
   \<and> finalTranscript (onTranscript r s) = finalTranscript s
   \<and> transcript (onTranscript r s) = transcript s"
  by (simp add: onTranscript_def Let_def split: option.splits)

lemma onTranscript_confidence: "confidence (onTranscript r s) = tr_confidence r"
  by (simp add: onTranscript_def Let_def split: option.splits)

text \<open>Events are taken in their order of arrival; none is merged or dropped.\<close>

lemma foldl_onTranscript_final:
  "finalTranscript (foldl (\<lambda>s r. onTranscript r s) s rs) =
     finalTranscript s @ joined_segments (map tr_transcript (filter is_final rs))"
proof (induction rs arbitrary: s)
  case Nil
  show ?case by (simp add: joined_segments_def)
next
  case (Cons r rs)
  show ?case
  proof (cases "is_final r")
    case True
    then show ?thesis
      using Cons.IH [of "onTranscript r s"] onTranscript_final [of r s]
      by (simp add: joined_segments_Cons)
  next
    case False
    then show ?thesis
      using Cons.IH [of "onTranscript r s"] onTranscript_interim [of r s]
      by simp
  qed
qed

lemma foldl_onTranscript_interim:
  "interimTranscript (foldl (\<lambda>s r. onTranscript r s) s (rs @ [r])) =
     (if is_final r then [] else tr_transcript r)"
  using onTranscript_final [of r "foldl (\<lambda>s r. onTranscript r s) s rs"]
    onTranscript_interim [of r "foldl (\<lambda>s r. onTranscript r s) s rs"]
  by simp

text \<open>
  Claim C2. For a result flagged final, the accumulated final text is the old one followed
  by a single space and the result's transcript (so, read as a sequence of segments each
  preceded by one space, it has exactly one more entry), and the interim text is empty.
  For a result that is not final, the interim text is the result's transcript and the
  accumulated final text is unchanged. In both cases the confidence is the result's own.
  Over any sequence of results, the final text gains the final results' transcripts, in
  order, and the interim text is decided by the last result alone.
\<close>

theorem transcript_event_reconciliation:
  "(is_final r \<longrightarrow>
      finalTranscript (onTranscript r s) = finalTranscript s @ '' '' @ tr_transcript r
    \<and> (\<forall>segs. finalTranscript s = joined_segments segs \<longrightarrow>
          finalTranscript (onTranscript r s) = joined_segments (segs @ [tr_transcript r]))
    \<and> interimTranscript (onTranscript r s) = []
    \<and> transcript (onTranscript r s) = transcript s @ '' '' @ tr_transcript r)
   \<and> (\<not> is_final r \<longrightarrow>
      interimTranscript (onTranscript r s) = tr_transcript r
    \<and> finalTranscript (onTranscript r s) = finalTranscript s
    \<and> transcript (onTranscript r s) = transcript s)
   \<and> confidence (onTranscript r s) = tr_confidence r
   \<and> finalTranscript (foldl (\<lambda>s r. onTranscript r s) s rs) =
       finalTranscript s @ joined_segments (map tr_transcript (filter is_final rs))
   \<and> interimTranscript (foldl (\<lambda>s r. onTranscript r s) s (rs @ [r])) =
       (if is_final r then [] else tr_transcript r)"
proof -
  have fin: "finalTranscript (onTranscript r s) = joined_segments (segs @ [tr_transcript r])"
    if "is_final r" "finalTranscript s = joined_segments segs" for segs
    using that onTranscript_final [of r s] by (simp add: joined_segments_snoc)
  show ?thesis
    using onTranscript_final [of r s] onTranscript_interim [of r s] fin
      onTranscript_confidence [of r s] foldl_onTranscript_final [of s rs]
      foldl_onTranscript_interim [of s rs r]
    by blast
qed

theorem transcript_event_reconciliation_witness:
  "interimTranscript (onTranscript interim_hel listener_init) = ''hel''
   \<and> finalTranscript (onTranscript interim_hel listener_init) = []
   \<and> finalTranscript (onTranscript final_hello_world (onTranscript interim_hel listener_init))
       = '' hello world''
   \<and> finalTranscript (onTranscript final_hello_world (onTranscript interim_hel listener_init))
       = joined_segments [''hello world'']
   \<and> interimTranscript (onTranscript final_hello_world (onTranscript interim_hel listener_init))
       = []
   \<and> confidence (onTranscript final_hello_world (onTranscript interim_hel listener_init))
       = 9 / 10"
proof -
  have i: "\<not> is_final interim_hel" "tr_transcript interim_hel = ''hel''"
    by (simp_all add: interim_hel_def)
  have f: "is_final final_hello_world" "tr_transcript final_hello_world = ''hello world''"
          "tr_confidence final_hello_world = 9 / 10"
    by (simp_all add: final_hello_world_def)
  have z: "finalTranscript listener_init = []" "joined_segments [] = []"
    by (simp_all add: listener_init_def joined_segments_def)
  have one: "interimTranscript (onTranscript interim_hel listener_init) = ''hel''
      \<and> finalTranscript (onTranscript interim_hel listener_init) = []"
    using transcript_event_reconciliation [of interim_hel listener_init "[]"] i z by simp
  then have "finalTranscript (onTranscript interim_hel listener_init) = joined_segments []"
    using z by simp
  then show ?thesis
    using transcript_event_reconciliation
            [of final_hello_world "onTranscript interim_hel listener_init" "[]"] f one
    by (simp add: joined_segments_def)
qed

text \<open>An event without a first alternative never reaches the hook.\<close>

lemma on_Transcript_reaches_hook:
  "first_alternative data = Some a \<Longrightarrow>
   \<exists>r. on_Transcript data s = onTranscript r s
        \<and> is_final r = (data_is_final data = Some True)
        \<and> tr_transcript r = (case alt_transcript a of Some t \<Rightarrow> t | None \<Rightarrow> [])"
  by (auto simp add: on_Transcript_def split: option.splits)

lemma sendAudio_not_open:
  "\<not> (connection c \<noteq> None \<and> isConnected c) \<Longrightarrow>
   sendAudio f c = c\<lparr>warnings := Suc (warnings c)\<rparr>"
  by (auto simp add: sendAudio_def)

lemma foldl_sendAudio_not_open:
  "\<not> (connection c \<noteq> None \<and> isConnected c) \<Longrightarrow>
   foldl (\<lambda>c f. sendAudio f c) c frames = c\<lparr>warnings := warnings c + length frames\<rparr>"
proof (induction frames arbitrary: c)
  case Nil
  then show ?case by simp
next
  case (Cons f frames)
  have "\<not> (connection (sendAudio f c) \<noteq> None \<and> isConnected (sendAudio f c))"
    using Cons.prems by (auto simp add: sendAudio_def)
  from Cons.IH [OF this] show ?case
    using Cons.prems by (simp add: sendAudio_not_open)
qed

lemma foldl_onaudioprocess_not_open:
  "\<not> isConnected (deepgramClient s) \<Longrightarrow> foldl (\<lambda>s d. onaudioprocess d s) s inputs = s"
  by (induction inputs) (simp_all add: onaudioprocess_def isConnectionActive_def)

lemma stopListening_normal_form:
  "stopListening s =
     s\<lparr>isListening := False,
       deepgramClient := stopTranscription (deepgramClient s),
       connected_processors :=
         (case processorRef s of None \<Rightarrow> connected_processors s
          | Some p \<Rightarrow> connected_processors s - {p}),
       processorRef := None,
       open_contexts :=
         (case audioContextRef s of None \<Rightarrow> open_contexts s
          | Some c \<Rightarrow> open_contexts s - {c}),
       audioContextRef := None,
       live_streamsL :=
         (case streamRefL s of None \<Rightarrow> live_streamsL s | Some st \<Rightarrow> live_streamsL s - {st}),
       streamRefL := None,
       isConnectedL := False,
       connectionState := None\<rparr>"
  by (cases "processorRef s"; cases "audioContextRef s"; cases "streamRefL s")
     (simp_all add: stopListening_def Let_def)

lemma stopListening_fields:
  "connectionState (stopListening s) = None"
  "isConnectedL (stopListening s) = False"
  "isListening (stopListening s) = False"
  "streamRefL (stopListening s) = None"
  "audioContextRef (stopListening s) = None"
  "processorRef (stopListening s) = None"
  "transcript (stopListening s) = transcript s"
  "interimTranscript (stopListening s) = interimTranscript s"
  "finalTranscript (stopListening s) = finalTranscript s"
  "confidence (stopListening s) = confidence s"
  "errorL (stopListening s) = errorL s"
  "words (stopListening s) = words s"
  "next_node (stopListening s) = next_node s"
  "deepgramClient (stopListening s) = stopTranscription (deepgramClient s)"
  by (simp_all add: stopListening_normal_form)

lemma stopListening_resources:
  "live_streamsL (stopListening s) =
     (case streamRefL s of None \<Rightarrow> live_streamsL s | Some st \<Rightarrow> live_streamsL s - {st})"
  "open_contexts (stopListening s) =
     (case audioContextRef s of None \<Rightarrow> open_contexts s | Some c \<Rightarrow> open_contexts s - {c})"
  "connected_processors (stopListening s) =
     (case processorRef s of None \<Rightarrow> connected_processors s
      | Some p \<Rightarrow> connected_processors s - {p})"
  by (simp_all add: stopListening_normal_form)

lemma stopListening_twice_result:
  "useDeepgramLive_result (stopListening (stopListening s)) =
   useDeepgramLive_result (stopListening s)"
  by (simp add: useDeepgramLive_result_def stopListening_fields)



text \<open>A start of listening, on a platform where nothing fails.\<close>

lemma startListening_begin_Awaiting:
  "has_mediaDevices lp \<Longrightarrow>
   startListening_begin lp t = Awaiting (t\<lparr>errorL := None, isListening := True\<rparr>)"
  by (simp add: startListening_begin_def Let_def)

lemma startListening_resume_Acquired:
  "audio_context_throws lp = None \<Longrightarrow> listen_live_throws lp = None \<Longrightarrow>
   startListening_resume lp (Acquired st) t =
     t\<lparr>live_streamsL := insert st (live_streamsL t), streamRefL := Some st,
       audioContextRef := Some (next_node t),
       open_contexts := insert (next_node t) (open_contexts t),
       processorRef := Some (Suc (next_node t)),
       connected_processors := insert (Suc (next_node t)) (connected_processors t),
       next_node := Suc (Suc (next_node t)),
       deepgramClient := startLiveTranscription (deepgramClient t)\<rparr>"
  by (simp add: startListening_resume_def Let_def)

text \<open>
  What the guard of \<^verbatim>\<open>sendAudio\<close> reads is the client's flag, which
  \<^verbatim>\<open>startLiveTranscription\<close> leaves as it finds it: when the flag is on, a frame sent after
  \<^verbatim>\<open>startLiveTranscription\<close> is handed to the new connection, which has not opened, and no
  warning is given.
\<close>

lemma sendAudio_after_startLiveTranscription:
  "isConnected c \<Longrightarrow>
   sendAudio f (startLiveTranscription c) =
     c\<lparr>connection := Some \<lparr>sent = [f], finish_calls = 0, opened = False\<rparr>\<rparr>"
  by (simp add: sendAudio_def startLiveTranscription_def)

text \<open>
  Claim C4, at two concrete sessions. In the first, the hook listens, the connection has
  opened, and \<^verbatim>\<open>startListening\<close> is called again. In the second, which the components'
  buttons allow, listening is stopped while the permission prompt is pending, the stream is
  granted, the connection opens, and listening is started again. In both, the client then
  refers to a new connection that has not opened while its flag is still on, and the next
  audio callback hands its frame to that connection: the frame is not dropped and no
  warning is given.
\<close>

theorem frame_handed_to_unopened_connection:
  "isConnected (deepgramClient (listener_run second_startListening))
   \<and> connection (deepgramClient (listener_run second_startListening))
       = Some \<lparr>sent = [], finish_calls = 0, opened = False\<rparr>
   \<and> connection (deepgramClient
         (listener_step (listener_run second_startListening) (Ev_audioprocess [Fin 1])))
       = Some \<lparr>sent = [[32767]], finish_calls = 0, opened = False\<rparr>
   \<and> warnings (deepgramClient
         (listener_step (listener_run second_startListening) (Ev_audioprocess [Fin 1]))) = 0
   \<and> isListening (listener_run (take 4 restart_after_late_grant)) = False
   \<and> isConnected (deepgramClient (listener_run restart_after_late_grant))
   \<and> connection (deepgramClient (listener_run restart_after_late_grant))
       = Some \<lparr>sent = [], finish_calls = 0, opened = False\<rparr>
   \<and> transmitted (deepgramClient
         (listener_step (listener_run restart_after_late_grant) (Ev_audioprocess [Fin 1])))
       = [[32767]]
   \<and> warnings (deepgramClient
         (listener_step (listener_run restart_after_late_grant) (Ev_audioprocess [Fin 1]))) = 0"
proof -
  have q: "has_mediaDevices full_listen_platform"
    "audio_context_throws full_listen_platform = None"
    "listen_live_throws full_listen_platform = None"
    by (simp_all add: full_listen_platform_def)
  have frame: "float32_to_int16 [Fin 1] = [32767]"
    by (simp add: float32_to_int16_map convert_sample_def js_trunc_def)
  have a: "isConnected (deepgramClient (listener_run second_startListening))
      \<and> connection (deepgramClient (listener_run second_startListening))
          = Some \<lparr>sent = [], finish_calls = 0, opened = False\<rparr>
      \<and> warnings (deepgramClient (listener_run second_startListening)) = 0
      \<and> connected_processors (listener_run second_startListening) \<noteq> {}"
    by (simp add: listener_run_def second_startListening_def listener_init_def new_client_def
        startListening_resume_Acquired startListening_begin_Awaiting q
        startLiveTranscription_def sdk_opens_def on_Open_def onConnectionChange_def)
  have b: "isListening (listener_run (take 4 restart_after_late_grant)) = False
      \<and> isConnected (deepgramClient (listener_run restart_after_late_grant))
      \<and> connection (deepgramClient (listener_run restart_after_late_grant))
          = Some \<lparr>sent = [], finish_calls = 0, opened = False\<rparr>
      \<and> warnings (deepgramClient (listener_run restart_after_late_grant)) = 0
      \<and> connected_processors (listener_run restart_after_late_grant) \<noteq> {}"
    by (simp add: listener_run_def restart_after_late_grant_def listener_init_def
        new_client_def startListening_resume_Acquired startListening_begin_Awaiting q
        stopListening_normal_form stopTranscription_def
        startLiveTranscription_def sdk_opens_def on_Open_def onConnectionChange_def)
  show ?thesis
    using a b
    by (simp add: onaudioprocess_def isConnectionActive_def sendAudio_def frame
        transmitted_def)
qed




section \<open>Start, stop and reset\<close>

lemma stopRecording_result:
  "useAudioRecorder_result (stopRecording c s) = useAudioRecorder_result s"
  by (simp add: stopRecording_def MediaRecorder_stop_def useAudioRecorder_result_def)

lemma stopRecording_twice: "stopRecording c (stopRecording c s) = stopRecording c s"
  by (cases "mediaRecorderRef s") (simp_all add: stopRecording_def MediaRecorder_stop_def)

lemma resetRecording_normal_form:
  "resetRecording u c s =
     s\<lparr>mediaRecorderRef :=
         (if c = Recording
          then map_option (\<lambda>r. r\<lparr>mr_recording := False\<rparr>) (mediaRecorderRef s)
          else mediaRecorderRef s),
       object_urls := (case u of Some url \<Rightarrow> (object_urls s)(url := None) | None \<Rightarrow> object_urls s),
       live_streams :=
         (case streamRef s of None \<Rightarrow> live_streams s | Some st \<Rightarrow> live_streams s - {st}),
       streamRef := None,
       active_timers :=
         (case durationIntervalRef s of None \<Rightarrow> active_timers s
          | Some t \<Rightarrow> active_timers s - {t}),
       durationIntervalRef := None,
       audioURL := None, recordingState := Inactive, error := None, duration := 0,
       audioChunksRef := []\<rparr>"
  by (cases "mediaRecorderRef s"; cases u; cases "streamRef s"; cases "durationIntervalRef s")
     (simp_all add: resetRecording_def Let_def MediaRecorder_stop_def revokeObjectURL_def
        stop_tracks_def clear_duration_timer_def)

lemma resetRecording_fields:
  "recordingState (resetRecording u c s) = Inactive"
  "audioURL (resetRecording u c s) = None"
  "error (resetRecording u c s) = None"
  "duration (resetRecording u c s) = 0"
  "audioChunksRef (resetRecording u c s) = []"
  "streamRef (resetRecording u c s) = None"
  "durationIntervalRef (resetRecording u c s) = None"
  "next_handle (resetRecording u c s) = next_handle s"
  "startTimeRef (resetRecording u c s) = startTimeRef s"
  "live_streams (resetRecording u c s) =
     (case streamRef s of None \<Rightarrow> live_streams s | Some st \<Rightarrow> live_streams s - {st})"
  "active_timers (resetRecording u c s) =
     (case durationIntervalRef s of None \<Rightarrow> active_timers s | Some t \<Rightarrow> active_timers s - {t})"
  "object_urls (resetRecording u c s) =
     (case u of Some url \<Rightarrow> (object_urls s)(url := None) | None \<Rightarrow> object_urls s)"
  "mediaRecorderRef (resetRecording u c s) =
     (if c = Recording
      then map_option (\<lambda>r. r\<lparr>mr_recording := False\<rparr>) (mediaRecorderRef s)
      else mediaRecorderRef s)"
  by (simp_all add: resetRecording_normal_form)

lemma resetRecording_result:
  "useAudioRecorder_result (resetRecording u c s) =
     \<lparr>res_recordingState = Inactive, res_audioURL = None, res_isRecording = False,
      res_error = None, res_duration = 0\<rparr>"
  by (simp add: useAudioRecorder_result_def resetRecording_fields)

lemma resetRecording_twice: "resetRecording u c (resetRecording u c s) = resetRecording u c s"
  by (subst resetRecording_normal_form [of u c "resetRecording u c s"])
     (cases u; cases "mediaRecorderRef s"; simp add: resetRecording_fields)

lemma resetRecording_again_rerendered:
  "resetRecording None Inactive (resetRecording u c s) = resetRecording u c s"
  by (subst resetRecording_normal_form [of None Inactive "resetRecording u c s"])
     (simp add: resetRecording_fields)

lemma clearTranscript_twice: "clearTranscript (clearTranscript t) = clearTranscript t"
  by (simp add: clearTranscript_def)

lemma clearTranscript_fields:
  "transcript (clearTranscript t) = []"
  "interimTranscript (clearTranscript t) = []"
  "finalTranscript (clearTranscript t) = []"
  "confidence (clearTranscript t) = 0"
  "words (clearTranscript t) = []"
  "errorL (clearTranscript t) = None"
  "isConnectedL (clearTranscript t) = isConnectedL t"
  "isListening (clearTranscript t) = isListening t"
  "connectionState (clearTranscript t) = connectionState t"
  by (simp_all add: clearTranscript_def)

text \<open>The components' reset in live mode: \<^verbatim>\<open>stopListening(); clearTranscript();\<close>\<close>

lemma stop_clear_twice_result:
  "useDeepgramLive_result (clearTranscript (stopListening (clearTranscript (stopListening t))))
   = useDeepgramLive_result (clearTranscript (stopListening t))"
  by (simp add: useDeepgramLive_result_def clearTranscript_fields stopListening_fields)

text \<open>
  Claim C9. What the recorder hook returns after two calls of \<^verbatim>\<open>stopRecording\<close> in a row
  is what it returns after one, whatever each call's closure captured; two calls of the
  same callback leave the very same state as one, so that whatever follows is the same.
  The same holds for \<^verbatim>\<open>resetRecording\<close>, also when the second call comes from the callback
  built after the first call's re-render. What the listening hook returns after two calls
  of \<^verbatim>\<open>stopListening\<close> is what it returns after one, \<^verbatim>\<open>clearTranscript\<close> twice is
  \<^verbatim>\<open>clearTranscript\<close> once, and the same holds for the two in sequence, the components'
  reset in live mode.
\<close>

theorem stop_and_reset_idempotent:
  "useAudioRecorder_result (stopRecording c2 (stopRecording c1 s)) =
     useAudioRecorder_result (stopRecording c1 s)
   \<and> stopRecording c1 (stopRecording c1 s) = stopRecording c1 s
   \<and> useAudioRecorder_result (resetRecording u2 c2 (resetRecording u1 c1 s)) =
       useAudioRecorder_result (resetRecording u1 c1 s)
   \<and> resetRecording u1 c1 (resetRecording u1 c1 s) = resetRecording u1 c1 s
   \<and> resetRecording None Inactive (resetRecording u1 c1 s) = resetRecording u1 c1 s
   \<and> useDeepgramLive_result (stopListening (stopListening t)) =
       useDeepgramLive_result (stopListening t)
   \<and> live_streamsL (stopListening (stopListening t)) = live_streamsL (stopListening t)
   \<and> clearTranscript (clearTranscript t) = clearTranscript t
   \<and> useDeepgramLive_result (clearTranscript (stopListening (clearTranscript (stopListening t))))
       = useDeepgramLive_result (clearTranscript (stopListening t))"
  using stopRecording_twice [of c1 s] resetRecording_twice [of u1 c1 s]
    resetRecording_again_rerendered [of u1 c1 s] stopListening_twice_result [of t]
    clearTranscript_twice [of t] stop_clear_twice_result [of t]
  by (simp add: stopRecording_result resetRecording_result stopListening_resources
      stopListening_fields)

theorem stop_and_reset_idempotent_witness:
  "useAudioRecorder_result (stopRecording Recording
       (stopRecording Recording (recorder_run three_chunk_session)))
     = useAudioRecorder_result (recorder_run three_chunk_session)
   \<and> res_recordingState (useAudioRecorder_result
        (resetRecording None Recording
          (resetRecording None Recording (recorder_run three_chunk_session)))) = Inactive
   \<and> res_connectionState (useDeepgramLive_result
        (stopListening (stopListening (listener_run open_session)))) = None"
proof -
  have a: "useAudioRecorder_result (stopRecording Recording (recorder_run three_chunk_session))
           = useAudioRecorder_result (recorder_run three_chunk_session)"
    by (rule stopRecording_result)
  have b: "res_recordingState (useAudioRecorder_result
             (resetRecording None Recording (recorder_run three_chunk_session))) = Inactive"
    by (simp add: resetRecording_result)
  have c: "res_connectionState (useDeepgramLive_result
             (stopListening (listener_run open_session))) = None"
    by (simp add: useDeepgramLive_result_def stopListening_fields)
  show ?thesis
    using stop_and_reset_idempotent
            [of Recording Recording "recorder_run three_chunk_session" None None
                "listener_run open_session"] a b c
    by simp
qed

text \<open>
  Claim C5, as stated, at two concrete sessions. \<^verbatim>\<open>resetRecording\<close> is called while the
  acquisition is pending and stream 7 is acquired afterwards: the recorder is recording,
  refers to stream 7, whose tracks are live, and its timer runs. \<^verbatim>\<open>stopListening\<close> is
  called while the acquisition is pending and stream 7 is acquired afterwards: the hook
  refers to stream 7, whose tracks are live, its audio graph is built and the client has
  a connection, while \<^verbatim>\<open>isListening\<close> is false.
\<close>

theorem late_acquisition_is_not_discarded:
  "recordingState (recorder_run reset_during_acquisition) = Recording
   \<and> streamRef (recorder_run reset_during_acquisition) = Some 7
   \<and> 7 \<in> live_streams (recorder_run reset_during_acquisition)
   \<and> 1 \<in> active_timers (recorder_run reset_during_acquisition)
   \<and> streamRefL (listener_run stop_during_acquisition) = Some 7
   \<and> 7 \<in> live_streamsL (listener_run stop_during_acquisition)
   \<and> audioContextRef (listener_run stop_during_acquisition) = Some 1
   \<and> connection (deepgramClient (listener_run stop_during_acquisition))
       = Some \<lparr>sent = [], finish_calls = 0, opened = False\<rparr>
   \<and> isListening (listener_run stop_during_acquisition) = False"
proof -
  have a: "recorder_run reset_during_acquisition =
      startRecording_resume full_platform (Acquired 7) 1000
        (resetRecording None Inactive
          (state_of (startRecording_begin None full_platform recorder_init)))"
    by (simp add: recorder_run_def reset_during_acquisition_def)
  have b: "listener_run stop_during_acquisition =
      startListening_resume full_listen_platform (Acquired 7)
        (stopListening (state_of (startListening_begin full_listen_platform listener_init)))"
    by (simp add: listener_run_def stop_during_acquisition_def)
  have p: "has_getUserMedia full_platform" "has_MediaRecorder full_platform"
    "constructor_throws full_platform = None" "start_throws full_platform = None"
    by (simp_all add: full_platform_def)
  have q: "has_mediaDevices full_listen_platform"
    "audio_context_throws full_listen_platform = None"
    "listen_live_throws full_listen_platform = None"
    by (simp_all add: full_listen_platform_def)
  show ?thesis
    unfolding a b
    by (simp add: startRecording_resume_Acquired p startRecording_begin_Awaiting
        resetRecording_fields recorder_init_def
        startListening_resume_Acquired q startListening_begin_Awaiting
        stopListening_fields listener_init_def startLiveTranscription_def)
qed

text \<open>
  Claim C5, amended. A stop or reset requested while the acquisition is in flight does not
  cancel it. When the acquisition succeeds afterwards, on a platform where nothing fails,
  the acquired device is kept: after \<^verbatim>\<open>stopRecording\<close> or \<^verbatim>\<open>resetRecording\<close> during the wait,
  the recorder is recording and refers to the acquired stream, whose tracks are live,
  and its timer runs; after \<^verbatim>\<open>stopListening\<close> during the wait, the hook refers to the
  acquired stream, whose tracks are live, its audio graph is built and the client has a
  new connection, while \<^verbatim>\<open>isListening\<close> is false. A \<^verbatim>\<open>resetRecording\<close> of the current
  render, or a \<^verbatim>\<open>stopListening\<close>, requested after the acquisition has completed, releases
  the device: the stream's tracks are stopped and the timer is cleared with the recorder
  inactive, or the audio graph is taken down and the client's flag is off.
\<close>

theorem acquisition_outlives_stop_and_reset:
  "(has_getUserMedia pf \<and> has_MediaRecorder pf
    \<and> constructor_throws pf = None \<and> start_throws pf = None \<longrightarrow>
      (let s0 = state_of (startRecording_begin u pf s);
           s1 = startRecording_resume pf (Acquired st) now (resetRecording u' c' s0);
           s1' = startRecording_resume pf (Acquired st) now (stopRecording c' s0);
           s2 = resetRecording (audioURL s1) (recordingState s1) s1;
           s2' = resetRecording (audioURL s1') (recordingState s1') s1'
       in recordingState s1 = Recording \<and> streamRef s1 = Some st \<and> st \<in> live_streams s1
          \<and> durationIntervalRef s1 = Some (next_handle s0)
          \<and> next_handle s0 \<in> active_timers s1
          \<and> recordingState s1' = Recording \<and> streamRef s1' = Some st
          \<and> st \<in> live_streams s1'
          \<and> durationIntervalRef s1' = Some (next_handle s0)
          \<and> next_handle s0 \<in> active_timers s1'
          \<and> recordingState s2 = Inactive \<and> streamRef s2 = None \<and> st \<notin> live_streams s2
          \<and> durationIntervalRef s2 = None \<and> next_handle s0 \<notin> active_timers s2
          \<and> recordingState s2' = Inactive \<and> streamRef s2' = None
          \<and> st \<notin> live_streams s2'
          \<and> durationIntervalRef s2' = None \<and> next_handle s0 \<notin> active_timers s2'))
   \<and> (has_mediaDevices lp \<and> audio_context_throws lp = None
       \<and> listen_live_throws lp = None \<longrightarrow>
      (let t0 = state_of (startListening_begin lp t);
           t1 = startListening_resume lp (Acquired st) (stopListening t0);
           t2 = stopListening t1
       in streamRefL t1 = Some st \<and> st \<in> live_streamsL t1
          \<and> audioContextRef t1 = Some (next_node t0)
          \<and> next_node t0 \<in> open_contexts t1
          \<and> Suc (next_node t0) \<in> connected_processors t1
          \<and> connection (deepgramClient t1) = Some \<lparr>sent = [], finish_calls = 0, opened = False\<rparr>
          \<and> isListening t1 = False
          \<and> streamRefL t2 = None \<and> st \<notin> live_streamsL t2
          \<and> next_node t0 \<notin> open_contexts t2
          \<and> Suc (next_node t0) \<notin> connected_processors t2
          \<and> \<not> isConnected (deepgramClient t2)))"
proof -
  have A: "(let s0 = state_of (startRecording_begin u pf s);
           s1 = startRecording_resume pf (Acquired st) now (resetRecording u' c' s0);
           s1' = startRecording_resume pf (Acquired st) now (stopRecording c' s0);
           s2 = resetRecording (audioURL s1) (recordingState s1) s1;
           s2' = resetRecording (audioURL s1') (recordingState s1') s1'
       in recordingState s1 = Recording \<and> streamRef s1 = Some st \<and> st \<in> live_streams s1
          \<and> durationIntervalRef s1 = Some (next_handle s0)
          \<and> next_handle s0 \<in> active_timers s1
          \<and> recordingState s1' = Recording \<and> streamRef s1' = Some st
          \<and> st \<in> live_streams s1'
          \<and> durationIntervalRef s1' = Some (next_handle s0)
          \<and> next_handle s0 \<in> active_timers s1'
          \<and> recordingState s2 = Inactive \<and> streamRef s2 = None \<and> st \<notin> live_streams s2
          \<and> durationIntervalRef s2 = None \<and> next_handle s0 \<notin> active_timers s2
          \<and> recordingState s2' = Inactive \<and> streamRef s2' = None
          \<and> st \<notin> live_streams s2'
          \<and> durationIntervalRef s2' = None \<and> next_handle s0 \<notin> active_timers s2')"
    if h: "has_getUserMedia pf" "has_MediaRecorder pf"
      "constructor_throws pf = None" "start_throws pf = None"
    unfolding Let_def
    using h
    by (simp add: startRecording_resume_Acquired resetRecording_fields stopRecording_def
        MediaRecorder_stop_def)
  have B: "(let t0 = state_of (startListening_begin lp t);
           t1 = startListening_resume lp (Acquired st) (stopListening t0);
           t2 = stopListening t1
       in streamRefL t1 = Some st \<and> st \<in> live_streamsL t1
          \<and> audioContextRef t1 = Some (next_node t0)
          \<and> next_node t0 \<in> open_contexts t1
          \<and> Suc (next_node t0) \<in> connected_processors t1
          \<and> connection (deepgramClient t1) = Some \<lparr>sent = [], finish_calls = 0, opened = False\<rparr>
          \<and> isListening t1 = False
          \<and> streamRefL t2 = None \<and> st \<notin> live_streamsL t2
          \<and> next_node t0 \<notin> open_contexts t2
          \<and> Suc (next_node t0) \<notin> connected_processors t2
          \<and> \<not> isConnected (deepgramClient t2))"
    if h: "has_mediaDevices lp" "audio_context_throws lp = None" "listen_live_throws lp = None"
    unfolding Let_def
    using h
    by (simp add: startListening_resume_Acquired startListening_begin_Awaiting
        stopListening_fields stopListening_resources startLiveTranscription_def
        stopTranscription_def)
  show ?thesis using A B by blast
qed

theorem acquisition_outlives_stop_and_reset_witness:
  "recordingState (recorder_run reset_during_acquisition) = Recording
   \<and> streamRef (recorder_run reset_during_acquisition) = Some 7
   \<and> 7 \<in> live_streams (recorder_run reset_during_acquisition)
   \<and> recordingState (resetRecording None Recording (recorder_run reset_during_acquisition))
       = Inactive
   \<and> 7 \<notin> live_streams (resetRecording None Recording (recorder_run reset_during_acquisition))
   \<and> streamRefL (listener_run stop_during_acquisition) = Some 7
   \<and> 7 \<in> live_streamsL (listener_run stop_during_acquisition)
   \<and> 7 \<notin> live_streamsL (stopListening (listener_run stop_during_acquisition))"
proof -
  have a: "recorder_run reset_during_acquisition =
      startRecording_resume full_platform (Acquired 7) 1000
        (resetRecording None Inactive
          (state_of (startRecording_begin None full_platform recorder_init)))"
    by (simp add: recorder_run_def reset_during_acquisition_def)
  have b: "listener_run stop_during_acquisition =
      startListening_resume full_listen_platform (Acquired 7)
        (stopListening (state_of (startListening_begin full_listen_platform listener_init)))"
    by (simp add: listener_run_def stop_during_acquisition_def)
  have p: "has_getUserMedia full_platform \<and> has_MediaRecorder full_platform
    \<and> constructor_throws full_platform = None \<and> start_throws full_platform = None"
    by (simp add: full_platform_def)
  have q: "has_mediaDevices full_listen_platform
    \<and> audio_context_throws full_listen_platform = None
    \<and> listen_live_throws full_listen_platform = None"
    by (simp add: full_listen_platform_def)
  have u: "audioURL (recorder_run reset_during_acquisition) = None"
    unfolding a using p by (simp add: startRecording_resume_Acquired resetRecording_fields)
  note inst = acquisition_outlives_stop_and_reset
            [of full_platform None recorder_init 7 1000 None Inactive
                full_listen_platform listener_init, unfolded Let_def, folded a b]
  have "recordingState (recorder_run reset_during_acquisition) = Recording
   \<and> streamRef (recorder_run reset_during_acquisition) = Some 7
   \<and> 7 \<in> live_streams (recorder_run reset_during_acquisition)
   \<and> recordingState (resetRecording (audioURL (recorder_run reset_during_acquisition))
        (recordingState (recorder_run reset_during_acquisition))
        (recorder_run reset_during_acquisition)) = Inactive
   \<and> 7 \<notin> live_streams (resetRecording (audioURL (recorder_run reset_during_acquisition))
        (recordingState (recorder_run reset_during_acquisition))
        (recorder_run reset_during_acquisition))
   \<and> streamRefL (listener_run stop_during_acquisition) = Some 7
   \<and> 7 \<in> live_streamsL (listener_run stop_during_acquisition)
   \<and> 7 \<notin> live_streamsL (stopListening (listener_run stop_during_acquisition))"
    using inst p q by blast
  then show ?thesis
    using u by auto
qed

text \<open>
  Claim C6, as stated, at two concrete sessions. \<^verbatim>\<open>startRecording\<close> is called while the
  hook is recording stream 1: stream 2 is acquired as well, both have live tracks, two
  timers run, and the hook refers to stream 2 only. \<^verbatim>\<open>startListening\<close> is called while
  the hook is listening on stream 1: stream 2 is acquired as well, both have live tracks,
  and two audio contexts are open.
\<close>

theorem second_start_acquires_second_stream:
  "recordingState (recorder_run (take 2 second_startRecording)) = Recording
   \<and> live_streams (recorder_run (take 2 second_startRecording)) = {1}
   \<and> recordingState (recorder_run second_startRecording) = Recording
   \<and> streamRef (recorder_run second_startRecording) = Some 2
   \<and> live_streams (recorder_run second_startRecording) = {1, 2}
   \<and> active_timers (recorder_run second_startRecording) = {1, 2}
   \<and> isListening (listener_run (take 3 second_startListening)) = True
   \<and> connectionState (listener_run (take 3 second_startListening)) = Some OPEN
   \<and> live_streamsL (listener_run (take 3 second_startListening)) = {1}
   \<and> streamRefL (listener_run second_startListening) = Some 2
   \<and> live_streamsL (listener_run second_startListening) = {1, 2}
   \<and> open_contexts (listener_run second_startListening) = {1, 3}"
proof -
  have p: "has_getUserMedia full_platform" "has_MediaRecorder full_platform"
    "constructor_throws full_platform = None" "start_throws full_platform = None"
    by (simp_all add: full_platform_def)
  have q: "has_mediaDevices full_listen_platform"
    "audio_context_throws full_listen_platform = None"
    "listen_live_throws full_listen_platform = None"
    by (simp_all add: full_listen_platform_def)
  have r: "recordingState (recorder_run (take 2 second_startRecording)) = Recording
   \<and> live_streams (recorder_run (take 2 second_startRecording)) = {1}
   \<and> recordingState (recorder_run second_startRecording) = Recording
   \<and> streamRef (recorder_run second_startRecording) = Some 2
   \<and> live_streams (recorder_run second_startRecording) = {1, 2}
   \<and> active_timers (recorder_run second_startRecording) = {1, 2}"
    by (auto simp add: recorder_run_def second_startRecording_def recorder_init_def
        startRecording_resume_Acquired startRecording_begin_Awaiting p)
  have l: "isListening (listener_run (take 3 second_startListening)) = True
   \<and> connectionState (listener_run (take 3 second_startListening)) = Some OPEN
   \<and> live_streamsL (listener_run (take 3 second_startListening)) = {1}
   \<and> streamRefL (listener_run second_startListening) = Some 2
   \<and> live_streamsL (listener_run second_startListening) = {1, 2}
   \<and> open_contexts (listener_run second_startListening) = {1, 3}"
    by (auto simp add: listener_run_def second_startListening_def listener_init_def
        startListening_resume_Acquired startListening_begin_Awaiting q
        startLiveTranscription_def sdk_opens_def on_Open_def onConnectionChange_def)
  show ?thesis using r l by simp
qed

text \<open>
  Claim C6, amended. A start request made while a session is recording or listening is not
  rejected by the hooks. It proceeds as a first start does and, when its acquisition
  succeeds on a platform where nothing fails, the hook's references (stream, recorder and
  timer; stream, audio context, processor and connection) are those of the new session,
  and nothing of the earlier session is released: the streams with live tracks, the
  active timers, the open audio contexts and the connected processors are those of before
  and the new ones.
\<close>

theorem start_while_active_proceeds:
  "(recordingState s = Recording \<and> has_getUserMedia pf \<and> has_MediaRecorder pf
    \<and> constructor_throws pf = None \<and> start_throws pf = None \<longrightarrow>
      (let s1 = startRecording_resume pf (Acquired st) now
                  (state_of (startRecording_begin u pf s))
       in recordingState s1 = Recording
          \<and> streamRef s1 = Some st
          \<and> mediaRecorderRef s1
              = Some \<lparr>mr_mimeType = negotiate_mimeType pf, mr_recording = True\<rparr>
          \<and> durationIntervalRef s1 = Some (next_handle s)
          \<and> live_streams s1 = insert st (live_streams s)
          \<and> active_timers s1 = insert (next_handle s) (active_timers s)))
   \<and> (isListening t \<and> has_mediaDevices lp \<and> audio_context_throws lp = None
       \<and> listen_live_throws lp = None \<longrightarrow>
      (let t1 = startListening_resume lp (Acquired st) (state_of (startListening_begin lp t))
       in isListening t1
          \<and> streamRefL t1 = Some st
          \<and> audioContextRef t1 = Some (next_node t)
          \<and> processorRef t1 = Some (Suc (next_node t))
          \<and> connection (deepgramClient t1) = Some \<lparr>sent = [], finish_calls = 0, opened = False\<rparr>
          \<and> live_streamsL t1 = insert st (live_streamsL t)
          \<and> open_contexts t1 = insert (next_node t) (open_contexts t)
          \<and> connected_processors t1
              = insert (Suc (next_node t)) (connected_processors t)))"
proof -
  have A: "(let s1 = startRecording_resume pf (Acquired st) now
                  (state_of (startRecording_begin u pf s))
       in recordingState s1 = Recording
          \<and> streamRef s1 = Some st
          \<and> mediaRecorderRef s1
              = Some \<lparr>mr_mimeType = negotiate_mimeType pf, mr_recording = True\<rparr>
          \<and> durationIntervalRef s1 = Some (next_handle s)
          \<and> live_streams s1 = insert st (live_streams s)
          \<and> active_timers s1 = insert (next_handle s) (active_timers s))"
    if h: "has_getUserMedia pf" "has_MediaRecorder pf"
      "constructor_throws pf = None" "start_throws pf = None"
    unfolding Let_def
    using h
    by (cases u)
       (simp_all add: startRecording_resume_Acquired startRecording_begin_Awaiting
          revokeObjectURL_def)
  have B: "(let t1 = startListening_resume lp (Acquired st) (state_of (startListening_begin lp t))
       in isListening t1
          \<and> streamRefL t1 = Some st
          \<and> audioContextRef t1 = Some (next_node t)
          \<and> processorRef t1 = Some (Suc (next_node t))
          \<and> connection (deepgramClient t1) = Some \<lparr>sent = [], finish_calls = 0, opened = False\<rparr>
          \<and> live_streamsL t1 = insert st (live_streamsL t)
          \<and> open_contexts t1 = insert (next_node t) (open_contexts t)
          \<and> connected_processors t1
              = insert (Suc (next_node t)) (connected_processors t))"
    if h: "has_mediaDevices lp" "audio_context_throws lp = None" "listen_live_throws lp = None"
    unfolding Let_def
    using h
    by (simp add: startListening_resume_Acquired startListening_begin_Awaiting
        startLiveTranscription_def)
  show ?thesis using A B by blast
qed

theorem start_while_active_proceeds_witness:
  "recordingState (recorder_run (take 2 second_startRecording)) = Recording
   \<and> live_streams (recorder_run (take 2 second_startRecording)) = {1}
   \<and> live_streams (startRecording_resume full_platform (Acquired 2) 2000
        (state_of (startRecording_begin None full_platform
           (recorder_run (take 2 second_startRecording))))) = {2, 1}
   \<and> isListening (listener_run (take 3 second_startListening))
   \<and> live_streamsL (listener_run (take 3 second_startListening)) = {1}
   \<and> live_streamsL (startListening_resume full_listen_platform (Acquired 2)
        (state_of (startListening_begin full_listen_platform
           (listener_run (take 3 second_startListening))))) = {2, 1}"
proof -
  have p: "has_getUserMedia full_platform" "has_MediaRecorder full_platform"
    "constructor_throws full_platform = None" "start_throws full_platform = None"
    by (simp_all add: full_platform_def)
  have q: "has_mediaDevices full_listen_platform"
    "audio_context_throws full_listen_platform = None"
    "listen_live_throws full_listen_platform = None"
    by (simp_all add: full_listen_platform_def)
  have r: "recordingState (recorder_run (take 2 second_startRecording)) = Recording"
          "live_streams (recorder_run (take 2 second_startRecording)) = {1}"
    by (simp_all add: recorder_run_def second_startRecording_def recorder_init_def
        startRecording_resume_Acquired startRecording_begin_Awaiting p)
  have l: "isListening (listener_run (take 3 second_startListening))"
          "live_streamsL (listener_run (take 3 second_startListening)) = {1}"
    by (simp_all add: listener_run_def second_startListening_def listener_init_def
        startListening_resume_Acquired startListening_begin_Awaiting q
        startLiveTranscription_def sdk_opens_def on_Open_def onConnectionChange_def)
  show ?thesis
    using start_while_active_proceeds
            [of "recorder_run (take 2 second_startRecording)" full_platform 2 2000 None
                "listener_run (take 3 second_startListening)" full_listen_platform]
          p q r l
    by (simp add: Let_def)
qed

end
